theory Spec2Isabelle
  imports Main "HOL-Library.Sublist"
begin

section \<open>Exceptions and outcomes\<close>

text \<open>
  The Python raises exceptions; an operation of the model returns an outcome.
  \<open>Return v s\<close>: the call returned \<open>v\<close> and left the state \<open>s\<close>.
  \<open>Raise e s\<close>: the exception \<open>e\<close> left the call, and \<open>s\<close> is the state as the call had
  written it up to that point (every write of the source before the raise is in \<open>s\<close>).
\<close>

datatype error =
    ValueError string
  | DoesNotExist
  | IndexError
  | StripeError

datatype ('a, 's) res = Return 'a 's | Raise error 's

fun state_of :: "('a, 's) res \<Rightarrow> 's" where
  "state_of (Return v s) = s"
| "state_of (Raise e s) = s"

fun returned :: "('a, 's) res \<Rightarrow> bool" where
  "returned (Return v s) = True"
| "returned (Raise e s) = False"

text \<open>Python truthiness of an optional string: \<open>None\<close> and the empty string are false.\<close>

fun truthy :: "string option \<Rightarrow> bool" where
  "truthy None = False"
| "truthy (Some s) = (s \<noteq> [])"

section \<open>Invitations (models.py, class Invitation)\<close>

text \<open>
  Users and organizations are referred to by primary key. A \<open>DateTimeField\<close> holds
  seconds since the epoch; \<open>timezone.now()\<close> is the argument \<open>now\<close>.
\<close>

record membership =
  m_user :: nat
  m_organization :: nat
  admin :: bool

record invitation =
  inv_organization :: nat
  inv_email :: string
  inv_user :: "nat option"
  request :: bool
  accepted_at :: "int option"
  rejected_at :: "int option"

text \<open>\<open>Organization.has_member\<close>: \<open>self.users.filter(pk=user.pk).exists()\<close>, through the
  membership table.\<close>

definition has_member :: "membership list \<Rightarrow> nat \<Rightarrow> nat \<Rightarrow> bool" where
  "has_member ms org u = (\<exists>m \<in> set ms. m_organization m = org \<and> m_user m = u)"

text \<open>
  \<open>Invitation.accept(self, user=None)\<close>. The state is the invitation (the instance and its
  row, written by \<open>self.save()\<close>) and the membership table. Both checks come before the
  first write, in the source's order.
\<close>

definition accept ::
  "int \<Rightarrow> nat option \<Rightarrow> invitation \<times> membership list
     \<Rightarrow> (unit, invitation \<times> membership list) res" where
  "accept now user s =
    (case s of (self, ms) \<Rightarrow>
      if inv_user self = None \<and> user = None then
        Raise (ValueError ''Must give a user when accepting if invitation has no user'') s
      else if accepted_at self \<noteq> None \<or> rejected_at self \<noteq> None then
        Raise (ValueError ''This invitation has already been closed'') s
      else
        let self1 = (if inv_user self = None then self\<lparr>inv_user := user\<rparr> else self);
            self2 = self1\<lparr>accepted_at := Some now\<rparr>;
            u = the (inv_user self2)
        in if \<not> has_member ms (inv_organization self2) u then
             Return () (self2, ms @ [\<lparr>m_user = u, m_organization = inv_organization self2,
                                     admin = False\<rparr>])
           else Return () (self2, ms))"

text \<open>\<open>Invitation.reject(self)\<close>.\<close>

definition reject ::
  "int \<Rightarrow> invitation \<times> membership list \<Rightarrow> (unit, invitation \<times> membership list) res" where
  "reject now s =
    (case s of (self, ms) \<Rightarrow>
      if accepted_at self \<noteq> None \<or> rejected_at self \<noteq> None then
        Raise (ValueError ''This invitation has already been closed'') s
      else Return () (self\<lparr>rejected_at := Some now\<rparr>, ms))"

text \<open>An invitation is terminal once either timestamp is set.\<close>

definition terminal :: "invitation \<Rightarrow> bool" where
  "terminal i = (accepted_at i \<noteq> None \<or> rejected_at i \<noteq> None)"


section \<open>Dates\<close>

text \<open>
  A \<open>DateField\<close> is a calendar date; \<open>update_on__lte\<close> compares dates in calendar order.
  \<open>date.today()\<close> is the argument \<open>today\<close> of the operations that read it.
\<close>

record date =
  year :: nat
  month :: nat
  day :: nat

definition date_le :: "date \<Rightarrow> date \<Rightarrow> bool" where
  "date_le a b =
     (year a < year b \<or>
      (year a = year b \<and> (month a < month b \<or> (month a = month b \<and> day a \<le> day b))))"

definition is_leap :: "nat \<Rightarrow> bool" where
  "is_leap y = (y mod 4 = 0 \<and> (y mod 100 \<noteq> 0 \<or> y mod 400 = 0))"

definition days_in_month :: "nat \<Rightarrow> nat \<Rightarrow> nat" where
  "days_in_month y m =
     (if m = 2 then (if is_leap y then 29 else 28)
      else if m = 4 \<or> m = 6 \<or> m = 9 \<or> m = 11 then 30 else 31)"

text \<open>
  \<open>d + relativedelta(months=1)\<close> of dateutil: the next month, the year carried past
  December, the day cut to the length of the new month.
\<close>

definition add_month :: "date \<Rightarrow> date" where
  "add_month t =
     (let y = (if month t + 1 > 12 then year t + 1 else year t);
          m = (if month t + 1 > 12 then month t + 1 - 12 else month t + 1)
      in \<lparr>year = y, month = m, day = min (day t) (days_in_month y m)\<rparr>)"

text \<open>
  Modelled from the spec: \<open>Interval\<close> of \<open>squarelet.core.models\<close> is not among the
  sources; \<open>date.today() + Interval("1 month")\<close> is the spec's "today + 1 month", the
  database's date plus an interval of one month.
\<close>

definition plus_interval_1_month :: "date \<Rightarrow> date" where
  "plus_interval_1_month t = add_month t"

section \<open>Plans (models.py, class Plan)\<close>

record plan =
  plan_name :: string
  slug :: string
  minimum_users :: nat
  base_price :: nat
  price_per_user :: nat
  feature_level :: nat
  public :: bool
  annual :: bool
  for_individuals :: bool
  for_groups :: bool

definition free :: "plan \<Rightarrow> bool" where
  "free p = (base_price p = 0 \<and> price_per_user p = 0)"

definition requires_payment :: "plan \<Rightarrow> bool" where
  "requires_payment p = (\<not> free p \<and> \<not> annual p)"

definition cost :: "plan \<Rightarrow> int \<Rightarrow> int" where
  "cost p users =
     int (base_price p) + max (users - int (minimum_users p)) 0 * int (price_per_user p)"

definition stripe_id :: "plan \<Rightarrow> string" where
  "stripe_id p = ''squarelet_plan_'' @ slug p"

section \<open>Organizations, change logs, charges and the database\<close>

text \<open>
  The billing fields of \<open>Organization\<close>. \<open>email\<close> is a property of the source computed
  from the organization's users and receipt addresses; here it is a field.
\<close>

record organization =
  pk :: nat
  uuid :: string
  name :: string
  email :: string
  individual :: bool
  plan :: plan
  next_plan :: plan
  max_users :: int
  update_on :: "date option"
  customer_id :: "string option"
  subscription_id :: "string option"
  payment_failed :: bool

datatype reason = CREATED | UPDATED | FAILED

record change_log =
  cl_organization :: nat
  cl_user :: "nat option"
  reason :: reason
  from_plan :: "plan option"
  from_next_plan :: "plan option"
  from_max_users :: "int option"
  to_plan :: plan
  to_next_plan :: plan
  to_max_users :: int

record charge =
  amount :: int
  fee_amount :: int
  ch_organization :: nat
  created_at :: int
  charge_id :: string
  description :: string

text \<open>What \<open>send_mail\<close> is handed: subject, template, organization, recipients, context.\<close>

datatype organization_to = ORG_TO_RECEIPTS | ORG_TO_ADMINS

datatype attempt = Final | Attempt int

datatype extra_context =
    ReceiptContext string bool bool
  | PaymentFailedContext attempt

record mail =
  subject :: string
  template :: string
  mail_organization :: nat
  mail_to :: organization_to
  mail_context :: extra_context

text \<open>The objects of the Stripe library that the code reads and writes.\<close>

record customer =
  cust_id :: string
  cust_email :: "string option"
  source :: "string option"

record subscription =
  sub_id :: string
  item_id :: string
  cancel_at_period_end :: bool

record subscription_params =
  items_plan :: string
  quantity :: int
  billing :: string
  days_until_due :: "nat option"

record invoice_plan =
  ip_id :: string
  ip_name :: "string option"
  ip_product :: string

text \<open>
  A function registered with \<open>transaction.on_commit\<close>. The only one the model keeps is
  the closure \<open>stripe_create_subscription\<close> of \<open>_create_subscription\<close>, with the values
  it closes over. (The cache invalidations that \<open>save\<close> registers are not modelled.)
\<close>

datatype hook = StripeCreateSubscription customer plan int

text \<open>
  The database: one list per table, and the state of the connection's transaction
  (\<open>in_atomic_block\<close>, and the functions waiting for the commit). Primary keys, \<open>slug\<close>,
  \<open>customer_id\<close> and \<open>charge_id\<close> are unique columns; \<open>objects.get\<close> is \<open>find\<close>.
\<close>

record db =
  organizations :: "organization list"
  plans :: "plan list"
  charges :: "charge list"
  change_logs :: "change_log list"
  outbox :: "mail list"
  in_atomic_block :: bool
  run_on_commit :: "hook list"

text \<open>
  The answers of Stripe, as the code meets them. A retrieval finds the object, or raises
  \<open>InvalidRequestError\<close> (\<open>NotFound\<close>, which the code catches), or fails otherwise.
\<close>

datatype 'a fetched = Found 'a | NotFound | Failure

record stripe =
  Customer_retrieve :: "string \<Rightarrow> customer fetched"
  Customer_create :: "string \<Rightarrow> string \<Rightarrow> error + customer"
  customer_save :: "customer \<Rightarrow> error option"
  Subscription_retrieve :: "string \<Rightarrow> subscription fetched"
  subscription_save :: "subscription \<Rightarrow> error option"
  Subscription_modify :: "string \<Rightarrow> string \<Rightarrow> subscription_params \<Rightarrow> error option"
  subscriptions_create :: "customer \<Rightarrow> subscription_params \<Rightarrow> error + string"
  Invoice_retrieve :: "string \<Rightarrow> error + invoice_plan list"
  Product_retrieve :: "string \<Rightarrow> error + string"

text \<open>\<open>Organization.save\<close>: write the instance over its row (or insert it).\<close>

definition save :: "organization \<Rightarrow> db \<Rightarrow> db" where
  "save self d =
     d\<lparr>organizations :=
         (if pk self \<in> set (map pk (organizations d))
          then map (\<lambda>r. if pk r = pk self then self else r) (organizations d)
          else organizations d @ [self])\<rparr>"

text \<open>The row of an organization, by primary key.\<close>

definition row :: "nat \<Rightarrow> db \<Rightarrow> organization option" where
  "row k d = find (\<lambda>r. pk r = k) (organizations d)"

section \<open>Payment management (models.py, class Organization)\<close>

text \<open>
  The state of a method call is the instance \<open>self\<close> and the database. \<open>customer\<close> is
  the memoized property: it retrieves the Stripe customer, or creates one and stores its
  id.
\<close>

definition customer :: "stripe \<Rightarrow> organization \<times> db \<Rightarrow> (customer, organization \<times> db) res" where
  "customer st s =
    (case s of (self, d) \<Rightarrow>
      (case (if truthy (customer_id self) then Customer_retrieve st (the (customer_id self))
             else NotFound) of
         Found c \<Rightarrow> Return c s
       | Failure \<Rightarrow> Raise StripeError s
       | NotFound \<Rightarrow>
           (case Customer_create st (name self) (email self) of
              Inl e \<Rightarrow> Raise e s
            | Inr c \<Rightarrow>
                let self1 = self\<lparr>customer_id := Some (cust_id c)\<rparr>
                in Return c (self1, save self1 d))))"

text \<open>\<open>subscription\<close>, the memoized property: \<open>None\<close> without an id or when Stripe has
  no such subscription.\<close>

definition subscription :: "stripe \<Rightarrow> organization \<Rightarrow> error + subscription option" where
  "subscription st self =
    (if truthy (subscription_id self) then
       (case Subscription_retrieve st (the (subscription_id self)) of
          Found sub \<Rightarrow> Inr (Some sub)
        | NotFound \<Rightarrow> Inr None
        | Failure \<Rightarrow> Inl StripeError)
     else Inr None)"

text \<open>
  \<open>save_card\<close>. The value returned is the customer object that the property has cached on
  the instance, which a later \<open>self.customer\<close> of the same call reads again.
\<close>

definition save_card ::
  "stripe \<Rightarrow> string \<Rightarrow> organization \<times> db \<Rightarrow> (customer, organization \<times> db) res" where
  "save_card st token s =
    (case s of (self, d) \<Rightarrow>
      let self1 = self\<lparr>payment_failed := False\<rparr>;
          d1 = save self1 d
      in (case customer st (self1, d1) of
            Raise e s1 \<Rightarrow> Raise e s1
          | Return c s1 \<Rightarrow>
              let c1 = c\<lparr>source := Some token\<rparr>
              in (case customer_save st c1 of
                    Some e \<Rightarrow> Raise e s1
                  | None \<Rightarrow> Return c1 s1)))"

text \<open>The parameters of the remote subscription for a plan and a number of seats.\<close>

definition params_for :: "plan \<Rightarrow> int \<Rightarrow> subscription_params" where
  "params_for p mu =
     \<lparr>items_plan = stripe_id p, quantity = mu,
      billing = (if annual p then ''send_invoice'' else ''charge_automatically''),
      days_until_due = (if annual p then Some 30 else None)\<rparr>"

text \<open>\<open>if not customer.email: customer.email = self.email; customer.save()\<close>.\<close>

definition ensure_email :: "stripe \<Rightarrow> customer \<Rightarrow> organization \<Rightarrow> error + customer" where
  "ensure_email st c self =
     (if \<not> truthy (cust_email c) then
        (let c1 = c\<lparr>cust_email := Some (email self)\<rparr>
         in case customer_save st c1 of Some e \<Rightarrow> Inl e | None \<Rightarrow> Inr c1)
      else Inr c)"

text \<open>
  The closure \<open>stripe_create_subscription\<close>: the remote call, then the id it returns is
  stored on the instance and saved.
\<close>

definition stripe_create_subscription ::
  "stripe \<Rightarrow> customer \<Rightarrow> plan \<Rightarrow> int \<Rightarrow> organization \<times> db \<Rightarrow> (unit, organization \<times> db) res" where
  "stripe_create_subscription st c p mu s =
    (case s of (self, d) \<Rightarrow>
      (case ensure_email st c self of
         Inl e \<Rightarrow> Raise e s
       | Inr c1 \<Rightarrow>
           (case subscriptions_create st c1 (params_for p mu) of
              Inl e \<Rightarrow> Raise e s
            | Inr sid \<Rightarrow>
                let self1 = self\<lparr>subscription_id := Some sid\<rparr>
                in Return () (self1, save self1 d))))"

fun run_hook :: "stripe \<Rightarrow> hook \<Rightarrow> organization \<times> db \<Rightarrow> (unit, organization \<times> db) res" where
  "run_hook st (StripeCreateSubscription c p mu) s = stripe_create_subscription st c p mu s"

text \<open>
  Django runs the registered functions in order, after the commit; the list is cleared
  before the first one runs, so a function that raises drops the ones after it.
\<close>

fun run_commit_hooks ::
  "stripe \<Rightarrow> hook list \<Rightarrow> organization \<times> db \<Rightarrow> (unit, organization \<times> db) res" where
  "run_commit_hooks st [] s = Return () s"
| "run_commit_hooks st (h # hs) s =
     (case run_hook st h s of
        Raise e s1 \<Rightarrow> Raise e s1
      | Return v s1 \<Rightarrow> run_commit_hooks st hs s1)"

text \<open>Leaving the outermost atomic block: the commit, then the registered functions.\<close>

definition commit :: "stripe \<Rightarrow> organization \<times> db \<Rightarrow> (unit, organization \<times> db) res" where
  "commit st s =
    (case s of (self, d) \<Rightarrow>
      run_commit_hooks st (run_on_commit d)
        (self, d\<lparr>in_atomic_block := False, run_on_commit := []\<rparr>))"

text \<open>
  \<open>_create_subscription\<close>, under \<open>@transaction.atomic\<close>. The body writes the new local
  state and registers the remote call for the commit. When the call is not inside another
  atomic block, leaving the decorator commits and runs the registered call at once;
  inside another block the call stays registered until that block commits.
\<close>

definition create_subscription ::
  "stripe \<Rightarrow> date \<Rightarrow> customer \<Rightarrow> plan \<Rightarrow> int \<Rightarrow> organization \<times> db
     \<Rightarrow> (unit, organization \<times> db) res" where
  "create_subscription st today c p mu s =
    (case s of (self, d) \<Rightarrow>
      let outermost = \<not> in_atomic_block d;
          d0 = d\<lparr>in_atomic_block := True\<rparr>;
          self1 = self\<lparr>plan := p, next_plan := p, max_users := mu,
                      update_on := Some (add_month today)\<rparr>;
          d1 = save self1 d0;
          d2 = d1\<lparr>run_on_commit := run_on_commit d1 @ [StripeCreateSubscription c p mu]\<rparr>
      in if outermost then commit st (self1, d2) else Return () (self1, d2))"

text \<open>\<open>_modify_plan\<close>.\<close>

definition modify_plan ::
  "plan \<Rightarrow> int \<Rightarrow> organization \<times> db \<Rightarrow> (unit, organization \<times> db) res" where
  "modify_plan p mu s =
    (case s of (self, d) \<Rightarrow>
      let self1 = (if feature_level p \<ge> feature_level (plan self)
                   then self\<lparr>plan := p, next_plan := p\<rparr>
                   else self\<lparr>next_plan := p\<rparr>);
          self2 = self1\<lparr>max_users := mu\<rparr>
      in Return () (self2, save self2 d))"

text \<open>\<open>_cancel_subscription\<close>. Without a subscription the error is logged only.\<close>

definition cancel_subscription ::
  "stripe \<Rightarrow> plan \<Rightarrow> organization \<times> db \<Rightarrow> (unit, organization \<times> db) res" where
  "cancel_subscription st p s =
    (case s of (self, d) \<Rightarrow>
      (case subscription st self of
         Inl e \<Rightarrow> Raise e s
       | Inr (Some sub) \<Rightarrow>
           (case subscription_save st (sub\<lparr>cancel_at_period_end := True\<rparr>) of
              Some e \<Rightarrow> Raise e s
            | None \<Rightarrow>
                let self1 = self\<lparr>subscription_id := None\<rparr>;
                    self2 = self1\<lparr>next_plan := p\<rparr>
                in Return () (self2, save self2 d))
       | Inr None \<Rightarrow>
           let self2 = self\<lparr>next_plan := p\<rparr>
           in Return () (self2, save self2 d)))"

text \<open>\<open>_modify_subscription\<close>. Without a subscription it creates one instead.\<close>

definition modify_subscription ::
  "stripe \<Rightarrow> date \<Rightarrow> customer \<Rightarrow> plan \<Rightarrow> int \<Rightarrow> organization \<times> db
     \<Rightarrow> (unit, organization \<times> db) res" where
  "modify_subscription st today c p mu s =
    (case s of (self, d) \<Rightarrow>
      (case subscription st self of
         Inl e \<Rightarrow> Raise e s
       | Inr None \<Rightarrow> create_subscription st today c p mu s
       | Inr (Some sub) \<Rightarrow>
           (case ensure_email st c self of
              Inl e \<Rightarrow> Raise e s
            | Inr c1 \<Rightarrow>
                (case Subscription_modify st (the (subscription_id self)) (item_id sub)
                        (params_for p mu) of
                   Some e \<Rightarrow> Raise e s
                 | None \<Rightarrow> modify_plan p mu s))))"

text \<open>The row that \<open>set_subscription\<close> appends to the change log.\<close>

definition updated_log ::
  "nat option \<Rightarrow> organization \<Rightarrow> organization \<Rightarrow> change_log" where
  "updated_log user before after =
     \<lparr>cl_organization = pk after, cl_user = user, reason = UPDATED,
      from_plan = Some (plan before), from_next_plan = Some (next_plan before),
      from_max_users = Some (max_users before),
      to_plan = plan after, to_next_plan = next_plan after,
      to_max_users = max_users after\<rparr>"

text \<open>
  \<open>self.customer\<close> inside \<open>set_subscription\<close>: the object cached by \<open>save_card\<close> when a
  token was given, the property otherwise.
\<close>

definition cached_customer ::
  "stripe \<Rightarrow> customer option \<Rightarrow> organization \<times> db \<Rightarrow> (customer, organization \<times> db) res" where
  "cached_customer st memo s = (case memo of Some c \<Rightarrow> Return c s | None \<Rightarrow> customer st s)"

text \<open>The four branches of \<open>set_subscription\<close>, chosen by \<open>free()\<close> of both plans.\<close>

definition transition ::
  "stripe \<Rightarrow> date \<Rightarrow> customer option \<Rightarrow> plan \<Rightarrow> int \<Rightarrow> organization \<times> db
     \<Rightarrow> (unit, organization \<times> db) res" where
  "transition st today memo p mu s =
    (if free (plan (fst s)) \<and> \<not> free p then
       (case cached_customer st memo s of
          Raise e s1 \<Rightarrow> Raise e s1
        | Return c s1 \<Rightarrow> create_subscription st today c p mu s1)
     else if \<not> free (plan (fst s)) \<and> free p then
       cancel_subscription st p s
     else if \<not> free (plan (fst s)) \<and> \<not> free p then
       (case cached_customer st memo s of
          Raise e s1 \<Rightarrow> Raise e s1
        | Return c s1 \<Rightarrow> modify_subscription st today c p mu s1)
     else modify_plan p mu s)"

text \<open>
  \<open>if token: self.save_card(token)\<close>, with the customer object the call leaves cached
  on the instance (none without a token).
\<close>

definition card_saved ::
  "stripe \<Rightarrow> string option \<Rightarrow> organization \<times> db
     \<Rightarrow> (customer option, organization \<times> db) res" where
  "card_saved st token s =
    (if truthy token then
       (case save_card st (the token) s of
          Raise e s1 \<Rightarrow> Raise e s1
        | Return c s1 \<Rightarrow> Return (Some c) s1)
     else Return None s)"

text \<open>\<open>set_subscription(self, token, plan, max_users, user)\<close>.\<close>

definition set_subscription ::
  "stripe \<Rightarrow> date \<Rightarrow> string option \<Rightarrow> plan \<Rightarrow> int \<Rightarrow> nat option \<Rightarrow> organization \<times> db
     \<Rightarrow> (unit, organization \<times> db) res" where
  "set_subscription st today token p max_users_arg user s =
    (let mu = (if individual (fst s) then 1 else max_users_arg)
     in case card_saved st token s of
          Raise e s1 \<Rightarrow> Raise e s1
        | Return memo s1 \<Rightarrow>
            (case transition st today memo p mu s1 of
               Raise e s2 \<Rightarrow> Raise e s2
             | Return v (self2, d2) \<Rightarrow>
                 Return ()
                   (self2,
                    d2\<lparr>change_logs := change_logs d2 @ [updated_log user (fst s1) self2]\<rparr>)))"

text \<open>The row that \<open>subscription_cancelled\<close> adds to the change log.\<close>

definition failed_log :: "organization \<Rightarrow> plan \<Rightarrow> change_log" where
  "failed_log self free_plan =
     \<lparr>cl_organization = pk self, cl_user = None, reason = FAILED,
      from_plan = Some (plan self), from_next_plan = Some (next_plan self),
      from_max_users = Some (max_users self),
      to_plan = free_plan, to_next_plan = free_plan, to_max_users = max_users self\<rparr>"

text \<open>\<open>subscription_cancelled\<close>: the forced downgrade after the last failed payment.\<close>

definition subscription_cancelled ::
  "organization \<times> db \<Rightarrow> (unit, organization \<times> db) res" where
  "subscription_cancelled s =
    (case s of (self, d) \<Rightarrow>
      (case find (\<lambda>p. slug p = ''free'') (plans d) of
         None \<Rightarrow> Raise DoesNotExist s
       | Some free_plan \<Rightarrow>
           let d1 = d\<lparr>change_logs := change_logs d @ [failed_log self free_plan]\<rparr>;
               self1 = self\<lparr>subscription_id := None\<rparr>;
               self2 = self1\<lparr>plan := free_plan, next_plan := free_plan\<rparr>
           in Return () (self2, save self2 d1)))"

section \<open>The rollover job (tasks.py, restore\_organization)\<close>

text \<open>
  The queryset \<open>organizations\<close> is lazy: each \<open>update\<close> selects, at the time it runs, the
  rows whose \<open>update_on\<close> is on or before today (a null date is not), and among them the
  rows whose \<open>next_plan\<close> is free, respectively is not. The value returned is the list
  of uuids handed to \<open>send_cache_invalidations\<close>.
\<close>

definition due :: "date \<Rightarrow> organization \<Rightarrow> bool" where
  "due today r = (case update_on r of None \<Rightarrow> False | Some u \<Rightarrow> date_le u today)"

definition next_plan_free :: "organization \<Rightarrow> bool" where
  "next_plan_free r = (base_price (next_plan r) = 0 \<and> price_per_user (next_plan r) = 0)"

definition restore_organization :: "date \<Rightarrow> db \<Rightarrow> string list \<times> db" where
  "restore_organization today d =
    (let uuids = map uuid (filter (due today) (organizations d));
         rows1 = map (\<lambda>r. if due today r \<and> next_plan_free r
                           then r\<lparr>update_on := None, plan := next_plan r\<rparr> else r)
                     (organizations d);
         rows2 = map (\<lambda>r. if due today r \<and> \<not> next_plan_free r
                           then r\<lparr>update_on := Some (plus_interval_1_month today),
                                  plan := next_plan r\<rparr>
                           else r)
                     rows1
     in (uuids, d\<lparr>organizations := rows2\<rparr>))"

section \<open>The webhook handlers (tasks.py)\<close>











text \<open>The payload of \<open>invoice.payment_failed\<close>.\<close>

record invoice_data =
  invoice_id :: string
  invoice_customer :: string
  attempt_count :: int

text \<open>The mail to the admins after a failed payment.\<close>

definition payment_failed_mail :: "organization \<Rightarrow> int \<Rightarrow> mail" where
  "payment_failed_mail org n =
     \<lparr>subject = (if n = 4 then ''Your subscription has been cancelled''
                 else ''Your payment has failed''),
      template = ''organizations/email/payment_failed.html'',
      mail_organization = pk org, mail_to = ORG_TO_ADMINS,
      mail_context = PaymentFailedContext (if n = 4 then Final else Attempt n)\<rparr>"

text \<open>\<open>handle_invoice_failed(invoice_data)\<close>. An unknown customer is logged and dropped.\<close>

definition handle_invoice_failed :: "invoice_data \<Rightarrow> db \<Rightarrow> (unit, db) res" where
  "handle_invoice_failed idata d =
    (case find (\<lambda>r. customer_id r = Some (invoice_customer idata)) (organizations d) of
       None \<Rightarrow> Return () d
     | Some org \<Rightarrow>
         let org1 = org\<lparr>payment_failed := True\<rparr>;
             d1 = save org1 d
         in (case (if attempt_count idata = 4 then subscription_cancelled (org1, d1)
                   else Return () (org1, d1)) of
               Raise e (org2, d2) \<Rightarrow> Raise e d2
             | Return v (org2, d2) \<Rightarrow>
                 Return () (d2\<lparr>outbox := outbox d2 @
                                 [payment_failed_mail org2 (attempt_count idata)]\<rparr>)))"

text \<open>
  The rollover in the words of the specification, one row at a time: a row whose
  \<open>update_on\<close> is on or before today takes \<open>plan = next_plan\<close>, and \<open>update_on\<close> becomes
  null when \<open>next_plan\<close> is free and today plus one month otherwise; every other row
  stays as it is.
\<close>

definition rollover_spec :: "date \<Rightarrow> organization \<Rightarrow> organization" where
  "rollover_spec today r =
    (case update_on r of
       None \<Rightarrow> r
     | Some u \<Rightarrow>
         if date_le u today then
           r\<lparr>plan := next_plan r,
             update_on := (if free (next_plan r) then None else Some (add_month today))\<rparr>
         else r)"


section \<open>Properties of organizations and of states\<close>

text \<open>The invariant of the specification: \<open>update_on\<close> is null exactly when \<open>plan\<close> and
  \<open>next_plan\<close> are both free.\<close>

definition invariant :: "organization \<Rightarrow> bool" where
  "invariant r = ((update_on r = None) = (free (plan r) \<and> free (next_plan r)))"

text \<open>No paid plan is pending behind a free plan.\<close>

definition settled :: "organization \<Rightarrow> bool" where
  "settled r = (free (next_plan r) \<or> \<not> free (plan r))"

text \<open>The tables other than the organizations are the same in \<open>d\<close> and \<open>d'\<close>.\<close>

definition kept :: "db \<Rightarrow> db \<Rightarrow> bool" where
  "kept d d' =
     (plans d' = plans d \<and> charges d' = charges d \<and> change_logs d' = change_logs d \<and>
      outbox d' = outbox d)"

text \<open>The row of the instance holds the instance.\<close>

definition saved :: "organization \<times> db \<Rightarrow> bool" where
  "saved s = (row (pk (fst s)) (snd s) = Some (fst s))"

text \<open>What saving a card and fetching the customer may change: \<open>customer_id\<close> and
  \<open>payment_failed\<close> of the organization, and its row.\<close>

definition card_step :: "organization \<times> db \<Rightarrow> organization \<times> db \<Rightarrow> bool" where
  "card_step s s' =
     (fst s' = (fst s)\<lparr>customer_id := customer_id (fst s'),
                        payment_failed := payment_failed (fst s')\<rparr> \<and>
      kept (snd s) (snd s') \<and>
      in_atomic_block (snd s') = in_atomic_block (snd s) \<and>
      run_on_commit (snd s') = run_on_commit (snd s))"

text \<open>What the registered remote call may change: \<open>subscription_id\<close> of the organization,
  and its row.\<close>

definition hook_step :: "organization \<times> db \<Rightarrow> organization \<times> db \<Rightarrow> bool" where
  "hook_step s s' =
     (fst s' = (fst s)\<lparr>subscription_id := subscription_id (fst s')\<rparr> \<and>
      kept (snd s) (snd s') \<and> (saved s \<longrightarrow> saved s'))"

text \<open>The invariant together with \<open>settled\<close>: what every transition and the rollover keep.\<close>

definition consistent :: "organization \<Rightarrow> bool" where
  "consistent r = (invariant r \<and> settled r)"
definition pending_invitation :: invitation where
  "pending_invitation = \<lparr>inv_organization = 1, inv_email = ''a@example.org'', inv_user = None,
     request = False, accepted_at = None, rejected_at = None\<rparr>"


section \<open>Concrete plans, organizations and databases\<close>

definition free_plan :: plan where
  "free_plan = \<lparr>plan_name = ''Free'', slug = ''free'', minimum_users = 1, base_price = 0,
     price_per_user = 0, feature_level = 0, public = True, annual = False,
     for_individuals = True, for_groups = True\<rparr>"

definition basic_plan :: plan where
  "basic_plan = \<lparr>plan_name = ''Basic'', slug = ''basic'', minimum_users = 1, base_price = 500,
     price_per_user = 100, feature_level = 1, public = True, annual = False,
     for_individuals = False, for_groups = True\<rparr>"

definition pro_plan :: plan where
  "pro_plan = \<lparr>plan_name = ''Pro'', slug = ''pro'', minimum_users = 1, base_price = 1000,
     price_per_user = 200, feature_level = 2, public = True, annual = False,
     for_individuals = False, for_groups = True\<rparr>"

text \<open>An organization on the paid plan, with a customer and a subscription at Stripe.\<close>

definition acme :: organization where
  "acme = \<lparr>pk = 1, uuid = ''uuid-acme'', name = ''Acme'', email = ''billing@acme.example'',
     individual = False, plan = pro_plan, next_plan = pro_plan, max_users = 5,
     update_on = Some \<lparr>year = 2019, month = 3, day = 15\<rparr>,
     customer_id = Some ''cus_1'', subscription_id = Some ''sub_1'',
     payment_failed = False\<rparr>"

definition db0 :: db where
  "db0 = \<lparr>organizations = [acme], plans = [free_plan, basic_plan, pro_plan], charges = [],
     change_logs = [], outbox = [], in_atomic_block = False, run_on_commit = []\<rparr>"

definition today0 :: date where
  "today0 = \<lparr>year = 2019, month = 3, day = 15\<rparr>"

text \<open>A paid organization whose cancellation waits for the rollover, a free one, and a
  paid one whose month ends later.\<close>

definition bolt :: organization where
  "bolt = \<lparr>pk = 2, uuid = ''uuid-bolt'', name = ''Bolt'', email = ''pay@bolt.example'',
     individual = False, plan = pro_plan, next_plan = free_plan, max_users = 3,
     update_on = Some \<lparr>year = 2019, month = 3, day = 14\<rparr>,
     customer_id = Some ''cus_2'', subscription_id = None, payment_failed = False\<rparr>"

definition solo :: organization where
  "solo = \<lparr>pk = 3, uuid = ''uuid-solo'', name = ''Solo'', email = ''solo@example.org'',
     individual = True, plan = free_plan, next_plan = free_plan, max_users = 1,
     update_on = None, customer_id = None, subscription_id = None,
     payment_failed = False\<rparr>"

definition dune :: organization where
  "dune = \<lparr>pk = 4, uuid = ''uuid-dune'', name = ''Dune'', email = ''pay@dune.example'',
     individual = False, plan = basic_plan, next_plan = basic_plan, max_users = 5,
     update_on = Some \<lparr>year = 2019, month = 3, day = 20\<rparr>,
     customer_id = Some ''cus_4'', subscription_id = Some ''sub_4'',
     payment_failed = False\<rparr>"

definition db1 :: db where
  "db1 = db0\<lparr>organizations := [acme, bolt, solo, dune]\<rparr>"

text \<open>A Stripe that answers every call; one whose create-subscription call fails; one
  that has lost every subscription.\<close>

definition stripe_ok :: stripe where
  "stripe_ok =
     \<lparr>Customer_retrieve =
        (\<lambda>i. Found \<lparr>cust_id = i, cust_email = Some ''billing@example.org'', source = None\<rparr>),
      Customer_create =
        (\<lambda>n e. Inr \<lparr>cust_id = ''cus_new'', cust_email = Some e, source = None\<rparr>),
      customer_save = (\<lambda>c. None),
      Subscription_retrieve =
        (\<lambda>i. Found \<lparr>sub_id = i, item_id = ''si_1'', cancel_at_period_end = False\<rparr>),
      subscription_save = (\<lambda>s. None),
      Subscription_modify = (\<lambda>i it q. None),
      subscriptions_create = (\<lambda>c q. Inr ''sub_new''),
      Invoice_retrieve =
        (\<lambda>i. Inr [\<lparr>ip_id = ''squarelet_plan_pro'', ip_name = Some ''Pro'',
                     ip_product = ''prod_1''\<rparr>]),
      Product_retrieve = (\<lambda>i. Inr ''Pro'')\<rparr>"

definition stripe_down :: stripe where
  "stripe_down = stripe_ok\<lparr>subscriptions_create := (\<lambda>c q. Inl StripeError)\<rparr>"

definition stripe_gone :: stripe where
  "stripe_gone = stripe_ok\<lparr>Subscription_retrieve := (\<lambda>i. NotFound)\<rparr>"

text \<open>A group organization on the free plan.\<close>

definition nova :: organization where
  "nova = \<lparr>pk = 5, uuid = ''uuid-nova'', name = ''Nova'', email = ''pay@nova.example'',
     individual = False, plan = free_plan, next_plan = free_plan, max_users = 5,
     update_on = None, customer_id = Some ''cus_5'', subscription_id = None,
     payment_failed = False\<rparr>"

definition db_nova :: db where
  "db_nova = db0\<lparr>organizations := [nova]\<rparr>"






section \<open>Rows and saving\<close>

lemma find_replace_self:
  "find (\<lambda>r. pk r = pk self)
     (if pk self \<in> set (map pk rows)
      then map (\<lambda>r. if pk r = pk self then self else r) rows
      else rows @ [self]) = Some self"
proof (induction rows)
  case Nil
  then show ?case by simp
next
  case (Cons a rows)
  then show ?case by (auto split: if_splits)
qed

lemma row_save: "row (pk self) (save self d) = Some self"
  unfolding row_def save_def using find_replace_self [of self "organizations d"] by simp

lemma save_frame:
  "plans (save self d) = plans d"
  "charges (save self d) = charges d"
  "change_logs (save self d) = change_logs d"
  "outbox (save self d) = outbox d"
  "in_atomic_block (save self d) = in_atomic_block d"
  "run_on_commit (save self d) = run_on_commit d"
  by (simp_all add: save_def)

lemma find_map_replace_other:
  "k \<noteq> pk self \<Longrightarrow>
   find (\<lambda>r. pk r = k) (map (\<lambda>r. if pk r = pk self then self else r) rows) =
   find (\<lambda>r. pk r = k) rows"
  by (induction rows) auto

lemma find_snoc_other:
  "k \<noteq> pk self \<Longrightarrow> find (\<lambda>r. pk r = k) (rows @ [self]) = find (\<lambda>r. pk r = k) rows"
  by (induction rows) auto

lemma row_save_other: "k \<noteq> pk self \<Longrightarrow> row k (save self d) = row k d"
  unfolding row_def save_def
  by (simp add: find_map_replace_other find_snoc_other)

lemma row_outbox [simp]: "row k (d\<lparr>outbox := x\<rparr>) = row k d"
  by (simp add: row_def)

lemma row_change_logs [simp]: "row k (d\<lparr>change_logs := x\<rparr>) = row k d"
  by (simp add: row_def)

lemma save_change_logs:
  "save self (d\<lparr>change_logs := x\<rparr>) = (save self d)\<lparr>change_logs := x\<rparr>"
  by (simp add: save_def)

section \<open>The forced downgrade\<close>

lemma subscription_cancelled_Return:
  assumes "find (\<lambda>p. slug p = ''free'') (plans d) = Some fp"
  shows "subscription_cancelled (self, d) =
           Return () (self\<lparr>subscription_id := None, plan := fp, next_plan := fp\<rparr>,
                      save (self\<lparr>subscription_id := None, plan := fp, next_plan := fp\<rparr>)
                        (d\<lparr>change_logs := change_logs d @ [failed_log self fp]\<rparr>))"
  using assms by (simp add: subscription_cancelled_def Let_def)

lemma subscription_cancelled_Raise:
  assumes "find (\<lambda>p. slug p = ''free'') (plans d) = None"
  shows "subscription_cancelled (self, d) = Raise DoesNotExist (self, d)"
  using assms by (simp add: subscription_cancelled_def)

section \<open>What the steps of \<open>set_subscription\<close> change\<close>

text \<open>
  Saving a card and fetching the customer are a \<open>card_step\<close>; the registered remote
  call is a \<open>hook_step\<close>. Each branch keeps the primary key and the tables other than
  the organizations (\<open>kept\<close>), ends with the instance saved when it returns
  (\<open>saved\<close>), and keeps a consistent organization consistent. The lemmas hold for every
  answer of Stripe.
\<close>


lemma kept_refl: "kept d d"
  by (simp add: kept_def)

lemma kept_trans: "kept a b \<Longrightarrow> kept b c \<Longrightarrow> kept a c"
  by (simp add: kept_def)

lemma kept_save: "kept d (save self d)"
  by (simp add: kept_def save_frame)

lemma card_step_refl: "card_step s s"
  by (simp add: card_step_def kept_refl)

lemma card_step_trans: "card_step a b \<Longrightarrow> card_step b c \<Longrightarrow> card_step a c"
  by (cases "fst a", cases "fst b", cases "fst c") (auto simp: card_step_def kept_def)

lemma card_step_fields:
  assumes "card_step s s'"
  shows "pk (fst s') = pk (fst s)" "plan (fst s') = plan (fst s)"
    "next_plan (fst s') = next_plan (fst s)" "max_users (fst s') = max_users (fst s)"
    "update_on (fst s') = update_on (fst s)" "individual (fst s') = individual (fst s)"
    "email (fst s') = email (fst s)" "subscription_id (fst s') = subscription_id (fst s)"
    "change_logs (snd s') = change_logs (snd s)"
    "in_atomic_block (snd s') = in_atomic_block (snd s)"
    "run_on_commit (snd s') = run_on_commit (snd s)"
  using assms by (cases "fst s", cases "fst s'", simp add: card_step_def kept_def)+

lemma customer_step: "card_step s (state_of (customer st s))"
  by (cases s)
     (auto simp: customer_def card_step_def kept_refl kept_save save_frame Let_def
           split: fetched.splits sum.splits)

lemma save_card_step: "card_step s (state_of (save_card st token s))"
proof (cases s)
  case (Pair self d)
  let ?s1 = "(self\<lparr>payment_failed := False\<rparr>, save (self\<lparr>payment_failed := False\<rparr>) d)"
  have 1: "card_step s ?s1"
    using Pair by (simp add: card_step_def kept_save save_frame)
  have 2: "card_step ?s1 (state_of (customer st ?s1))"
    by (rule customer_step)
  have 3: "state_of (save_card st token s) = state_of (customer st ?s1)"
    using Pair by (simp add: save_card_def Let_def split: res.splits option.splits)
  from 1 2 3 show ?thesis by (simp add: card_step_trans [of s ?s1])
qed

lemma card_saved_state:
  "state_of (card_saved st token s) =
     (if truthy token then state_of (save_card st (the token) s) else s)"
  by (cases "save_card st (the token) s") (simp_all add: card_saved_def)

lemma card_saved_step: "card_step s (state_of (card_saved st token s))"
  by (simp add: card_saved_state save_card_step card_step_refl)

lemma cached_customer_step: "card_step s (state_of (cached_customer st memo s))"
  using customer_step [of s st]
  by (simp add: cached_customer_def card_step_refl split: option.splits)


lemma saved_save: "saved (self, save self d)"
  by (simp add: saved_def row_save)

lemma hook_step_refl: "hook_step s s"
  by (simp add: hook_step_def kept_refl)

lemma hook_step_trans: "hook_step a b \<Longrightarrow> hook_step b c \<Longrightarrow> hook_step a c"
  by (cases "fst a", cases "fst b", cases "fst c") (auto simp: hook_step_def kept_def)

lemma stripe_create_subscription_step:
  "hook_step s (state_of (stripe_create_subscription st c p mu s))"
  by (cases s)
     (auto simp: stripe_create_subscription_def hook_step_def kept_refl kept_save saved_save
           Let_def split: sum.splits)

lemma stripe_create_subscription_saved:
  "stripe_create_subscription st c p mu s = Return v s' \<Longrightarrow> saved s'"
  by (cases s)
     (auto simp: stripe_create_subscription_def saved_save Let_def split: sum.splits)

lemma run_commit_hooks_step: "hook_step s (state_of (run_commit_hooks st hs s))"
proof (induction hs arbitrary: s)
  case Nil
  then show ?case by (simp add: hook_step_refl)
next
  case (Cons h hs)
  obtain c p mu where h: "h = StripeCreateSubscription c p mu" by (cases h)
  show ?case
  proof (cases "stripe_create_subscription st c p mu s")
    case (Return v s1)
    have 1: "hook_step s s1"
      using stripe_create_subscription_step [of s st c p mu] Return by simp
    have 2: "hook_step s1 (state_of (run_commit_hooks st hs s1))" by (rule Cons.IH)
    from 1 2 show ?thesis using h Return by (simp add: hook_step_trans [of s s1])
  next
    case (Raise e s1)
    then show ?thesis
      using stripe_create_subscription_step [of s st c p mu] h by simp
  qed
qed


lemma row_txn [simp]:
  "row k (d\<lparr>in_atomic_block := x\<rparr>) = row k d"
  "row k (d\<lparr>run_on_commit := y\<rparr>) = row k d"
  by (simp_all add: row_def)

lemma kept_txn:
  "kept d d' \<Longrightarrow> kept d (d'\<lparr>in_atomic_block := x\<rparr>)"
  "kept d d' \<Longrightarrow> kept d (d'\<lparr>run_on_commit := y\<rparr>)"
  by (simp_all add: kept_def)

lemma kept_save_txn: "kept d (save self (d\<lparr>in_atomic_block := x\<rparr>))"
  by (simp add: kept_def save_frame)

lemma commit_step: "hook_step (self, d\<lparr>in_atomic_block := False, run_on_commit := []\<rparr>)
                      (state_of (commit st (self, d)))"
  by (simp add: commit_def run_commit_hooks_step)

lemma create_subscription_shape:
  "\<exists>x d'. state_of (create_subscription st today c p mu (self, d)) =
            (self\<lparr>plan := p, next_plan := p, max_users := mu,
                  update_on := Some (add_month today), subscription_id := x\<rparr>, d') \<and>
          kept d d' \<and>
          saved (self\<lparr>plan := p, next_plan := p, max_users := mu,
                      update_on := Some (add_month today), subscription_id := x\<rparr>, d')"
proof -
  let ?self1 = "self\<lparr>plan := p, next_plan := p, max_users := mu,
                     update_on := Some (add_month today)\<rparr>"
  let ?d1 = "save ?self1 (d\<lparr>in_atomic_block := True\<rparr>)"
  let ?d2 = "?d1\<lparr>run_on_commit := run_on_commit ?d1 @ [StripeCreateSubscription c p mu]\<rparr>"
  have k: "kept d ?d2" by (simp add: kept_def save_frame)
  have sv: "saved (?self1, ?d2)" using row_save [of ?self1] by (simp add: saved_def)
  show ?thesis
  proof (cases "in_atomic_block d")
    case True
    then have "state_of (create_subscription st today c p mu (self, d)) = (?self1, ?d2)"
      by (simp add: create_subscription_def Let_def)
    moreover have "?self1 = ?self1\<lparr>subscription_id := subscription_id self\<rparr>" by simp
    ultimately show ?thesis using k sv by metis
  next
    case False
    let ?d3 = "?d2\<lparr>in_atomic_block := False, run_on_commit := []\<rparr>"
    let ?s' = "state_of (commit st (?self1, ?d2))"
    have e: "state_of (create_subscription st today c p mu (self, d)) = ?s'"
      using False by (simp add: create_subscription_def Let_def)
    have h: "hook_step (?self1, ?d3) ?s'" by (rule commit_step)
    have k3: "kept d ?d3" by (simp add: kept_def save_frame)
    have sv3: "saved (?self1, ?d3)" using row_save [of ?self1] by (simp add: saved_def)
    from h have 1: "fst ?s' = ?self1\<lparr>subscription_id := subscription_id (fst ?s')\<rparr>"
      and 2: "kept ?d3 (snd ?s')" and 3: "saved ?s'"
      using sv3 by (simp_all add: hook_step_def)
    have 4: "kept d (snd ?s')" using k3 2 by (rule kept_trans)
    have 5: "?s' = (?self1\<lparr>subscription_id := subscription_id (fst ?s')\<rparr>, snd ?s')"
      using 1 by (metis prod.collapse)
    show ?thesis
      apply (rule exI [of _ "subscription_id (fst ?s')"])
      apply (rule exI [of _ "snd ?s'"])
      using e 3 4 5 by simp
  qed
qed


lemma create_subscription_frame:
  "pk (fst (state_of (create_subscription st today c p mu (self, d)))) = pk self \<and>
   kept d (snd (state_of (create_subscription st today c p mu (self, d)))) \<and>
   saved (state_of (create_subscription st today c p mu (self, d)))"
  using create_subscription_shape [of st today c p mu self d] by auto

lemma create_subscription_consistent:
  "\<not> free p \<Longrightarrow> consistent (fst (state_of (create_subscription st today c p mu (self, d))))"
  using create_subscription_shape [of st today c p mu self d]
  by (auto simp: consistent_def invariant_def settled_def)

lemma modify_plan_frame:
  "pk (fst (state_of (modify_plan p mu (self, d)))) = pk self \<and>
   kept d (snd (state_of (modify_plan p mu (self, d)))) \<and>
   saved (state_of (modify_plan p mu (self, d)))"
  by (simp add: modify_plan_def Let_def kept_save saved_save)

lemma modify_plan_consistent:
  "consistent self \<Longrightarrow> free (plan self) = free p \<Longrightarrow>
   consistent (fst (state_of (modify_plan p mu (self, d))))"
  by (auto simp: modify_plan_def Let_def consistent_def invariant_def settled_def)

lemma cancel_subscription_frame:
  "pk (fst (state_of (cancel_subscription st p (self, d)))) = pk self \<and>
   kept d (snd (state_of (cancel_subscription st p (self, d)))) \<and>
   (returned (cancel_subscription st p (self, d)) \<longrightarrow>
      saved (state_of (cancel_subscription st p (self, d))))"
  by (auto simp: cancel_subscription_def Let_def kept_save kept_refl saved_save
           split: sum.splits option.splits)

lemma cancel_subscription_consistent:
  "consistent self \<Longrightarrow> \<not> free (plan self) \<Longrightarrow>
   consistent (fst (state_of (cancel_subscription st p (self, d))))"
  by (auto simp: cancel_subscription_def Let_def consistent_def invariant_def settled_def
           split: sum.splits option.splits)

lemma modify_subscription_cases:
  "modify_subscription st today c p mu (self, d) = create_subscription st today c p mu (self, d) \<or>
   modify_subscription st today c p mu (self, d) = modify_plan p mu (self, d) \<or>
   (\<exists>e. modify_subscription st today c p mu (self, d) = Raise e (self, d))"
  by (auto simp: modify_subscription_def split: sum.splits option.splits)

lemma modify_subscription_frame:
  "pk (fst (state_of (modify_subscription st today c p mu (self, d)))) = pk self \<and>
   kept d (snd (state_of (modify_subscription st today c p mu (self, d)))) \<and>
   (returned (modify_subscription st today c p mu (self, d)) \<longrightarrow>
      saved (state_of (modify_subscription st today c p mu (self, d))))"
  using modify_subscription_cases [of st today c p mu self d]
    create_subscription_frame [of st today c p mu self d]
    modify_plan_frame [of p mu self d]
  by (auto simp: kept_refl)

lemma modify_subscription_consistent:
  "consistent self \<Longrightarrow> \<not> free (plan self) \<Longrightarrow> \<not> free p \<Longrightarrow>
   consistent (fst (state_of (modify_subscription st today c p mu (self, d))))"
  using modify_subscription_cases [of st today c p mu self d]
    create_subscription_consistent [of p st today c mu self d]
    modify_plan_consistent [of self p mu d]
  by auto


lemma card_step_consistent: "card_step s s' \<Longrightarrow> consistent (fst s') = consistent (fst s)"
  using card_step_fields(2,3,5) [of s s']
  by (simp add: consistent_def invariant_def settled_def)

lemma card_step_kept: "card_step s s' \<Longrightarrow> kept (snd s) (snd s')"
  by (simp add: card_step_def)

lemma transition_free_paid:
  "free (plan (fst s)) \<Longrightarrow> \<not> free p \<Longrightarrow>
   transition st today memo p mu s =
     (case cached_customer st memo s of
        Raise e s1 \<Rightarrow> Raise e s1
      | Return c s1 \<Rightarrow> create_subscription st today c p mu s1)"
  by (simp add: transition_def)

lemma transition_paid_free:
  "\<not> free (plan (fst s)) \<Longrightarrow> free p \<Longrightarrow>
   transition st today memo p mu s = cancel_subscription st p s"
  by (simp add: transition_def)

lemma transition_paid_paid:
  "\<not> free (plan (fst s)) \<Longrightarrow> \<not> free p \<Longrightarrow>
   transition st today memo p mu s =
     (case cached_customer st memo s of
        Raise e s1 \<Rightarrow> Raise e s1
      | Return c s1 \<Rightarrow> modify_subscription st today c p mu s1)"
  by (simp add: transition_def)

lemma transition_free_free:
  "free (plan (fst s)) \<Longrightarrow> free p \<Longrightarrow>
   transition st today memo p mu s = modify_plan p mu s"
  by (simp add: transition_def)

lemma transition_frame:
  "pk (fst (state_of (transition st today memo p mu s))) = pk (fst s) \<and>
   kept (snd s) (snd (state_of (transition st today memo p mu s))) \<and>
   (returned (transition st today memo p mu s) \<longrightarrow>
      saved (state_of (transition st today memo p mu s)))"
proof -
  obtain self d where s: "s = (self, d)" by (cases s)
  let ?cc = "cached_customer st memo s"
  have cs: "card_step s (state_of ?cc)" by (rule cached_customer_step)
  have via_customer:
    "pk (fst (state_of r)) = pk (fst s) \<and> kept (snd s) (snd (state_of r)) \<and>
       (returned r \<longrightarrow> saved (state_of r))"
    if r: "r = (case ?cc of Raise e s1 \<Rightarrow> Raise e s1 | Return c s1 \<Rightarrow> f c s1)"
      and f: "\<And>c self1 d1. pk (fst (state_of (f c (self1, d1)))) = pk self1 \<and>
               kept d1 (snd (state_of (f c (self1, d1)))) \<and>
               (returned (f c (self1, d1)) \<longrightarrow> saved (state_of (f c (self1, d1))))"
    for r :: "(unit, organization \<times> db) res" and f
  proof (cases ?cc)
    case (Raise e s1)
    then show ?thesis using cs r card_step_fields(1) [of s s1] card_step_kept [of s s1] by simp
  next
    case (Return c s1)
    obtain self1 d1 where s1: "s1 = (self1, d1)" by (cases s1)
    have "card_step s s1" using cs Return by simp
    then have a: "pk self1 = pk (fst s)" and b: "kept (snd s) d1"
      using card_step_fields(1) [of s s1] card_step_kept [of s s1] s1 by simp_all
    from f [of c self1 d1] a b show ?thesis
      using r Return s1 kept_trans [of "snd s" d1] by auto
  qed
  show ?thesis
  proof (cases "free (plan (fst s))"; cases "free p")
    assume "free (plan (fst s))" "free p"
    then show ?thesis
      using s modify_plan_frame [of p mu self d] by (simp add: transition_free_free)
  next
    assume a: "free (plan (fst s))" "\<not> free p"
    show ?thesis
      using via_customer [OF transition_free_paid [OF a]]
        create_subscription_frame by simp
  next
    assume "\<not> free (plan (fst s))" "free p"
    then show ?thesis
      using s cancel_subscription_frame [of st p self d] by (simp add: transition_paid_free)
  next
    assume a: "\<not> free (plan (fst s))" "\<not> free p"
    show ?thesis
      using via_customer [OF transition_paid_paid [OF a]]
        modify_subscription_frame by simp
  qed
qed


lemma transition_consistent:
  assumes "consistent (fst s)"
  shows "consistent (fst (state_of (transition st today memo p mu s)))"
proof -
  obtain self d where s: "s = (self, d)" by (cases s)
  let ?cc = "cached_customer st memo s"
  have cs: "card_step s (state_of ?cc)" by (rule cached_customer_step)
  have via_customer: "consistent (fst (state_of r))"
    if r: "r = (case ?cc of Raise e s1 \<Rightarrow> Raise e s1 | Return c s1 \<Rightarrow> f c s1)"
      and f: "\<And>c self1 d1. consistent self1 \<Longrightarrow> plan self1 = plan (fst s) \<Longrightarrow>
                consistent (fst (state_of (f c (self1, d1))))"
    for r :: "(unit, organization \<times> db) res" and f
  proof (cases ?cc)
    case (Raise e s1)
    then show ?thesis using cs r assms card_step_consistent [of s s1] by simp
  next
    case (Return c s1)
    obtain self1 d1 where s1: "s1 = (self1, d1)" by (cases s1)
    have "card_step s s1" using cs Return by simp
    then have "consistent self1" "plan self1 = plan (fst s)"
      using card_step_consistent [of s s1] card_step_fields(2) [of s s1] s1 assms by simp_all
    from f [OF this] show ?thesis using r Return s1 by simp
  qed
  show ?thesis
  proof (cases "free (plan (fst s))"; cases "free p")
    assume "free (plan (fst s))" "free p"
    then show ?thesis
      using s assms modify_plan_consistent [of self p mu d] by (simp add: transition_free_free)
  next
    assume a: "free (plan (fst s))" "\<not> free p"
    show ?thesis
      using via_customer [OF transition_free_paid [OF a]]
        create_subscription_consistent [OF a(2)] by simp
  next
    assume "\<not> free (plan (fst s))" "free p"
    then show ?thesis
      using s assms cancel_subscription_consistent [of self st p d]
      by (simp add: transition_paid_free)
  next
    assume a: "\<not> free (plan (fst s))" "\<not> free p"
    show ?thesis
      using via_customer [OF transition_paid_paid [OF a]]
        modify_subscription_consistent a by simp
  qed
qed

lemma set_subscription_Return:
  assumes "set_subscription st today token p mu user s = Return v (self', d')"
  shows "\<exists>memo s1 d2.
           card_saved st token s = Return memo s1 \<and>
           transition st today memo p (if individual (fst s) then 1 else mu) s1 =
             Return () (self', d2) \<and>
           d' = d2\<lparr>change_logs := change_logs d2 @ [updated_log user (fst s1) self']\<rparr>"
  using assms
  by (auto simp: set_subscription_def Let_def split: res.splits prod.splits)

lemma set_subscription_Raise:
  assumes "set_subscription st today token p mu user s = Raise e s'"
  shows "card_saved st token s = Raise e s' \<or>
         (\<exists>memo s1. card_saved st token s = Return memo s1 \<and>
            transition st today memo p (if individual (fst s) then 1 else mu) s1 = Raise e s')"
  using assms
  by (auto simp: set_subscription_def Let_def split: res.splits prod.splits)

lemma set_subscription_consistent:
  assumes "consistent (fst s)"
  shows "consistent (fst (state_of (set_subscription st today token p mu user s)))"
proof (cases "set_subscription st today token p mu user s")
  case (Return v s')
  obtain self' d' where s': "s' = (self', d')" by (cases s')
  from set_subscription_Return [OF Return [unfolded s']]
  obtain memo s1 d2 where c: "card_saved st token s = Return memo s1"
    and t: "transition st today memo p (if individual (fst s) then 1 else mu) s1 =
             Return () (self', d2)" by blast
  have "card_step s s1" using card_saved_step [of s st token] c by simp
  then have "consistent (fst s1)" using assms card_step_consistent by simp
  from transition_consistent [OF this, of st today memo p "if individual (fst s) then 1 else mu"] t
  show ?thesis using Return s' by simp
next
  case (Raise e s')
  from set_subscription_Raise [OF Raise]
  show ?thesis
  proof
    assume c: "card_saved st token s = Raise e s'"
    have "card_step s s'" using card_saved_step [of s st token] c by simp
    then show ?thesis using assms card_step_consistent Raise by simp
  next
    assume "\<exists>memo s1. card_saved st token s = Return memo s1 \<and>
            transition st today memo p (if individual (fst s) then 1 else mu) s1 = Raise e s'"
    then obtain memo s1 where c: "card_saved st token s = Return memo s1"
      and t: "transition st today memo p (if individual (fst s) then 1 else mu) s1 = Raise e s'"
      by blast
    have "card_step s s1" using card_saved_step [of s st token] c by simp
    then have "consistent (fst s1)" using assms card_step_consistent by simp
    from transition_consistent [OF this, of st today memo p "if individual (fst s) then 1 else mu"] t
    show ?thesis using Raise by simp
  qed
qed

lemma set_subscription_log:
  assumes "set_subscription st today token p mu user (self, d) = Return v (self', d')"
  shows "change_logs d' = change_logs d @
           [\<lparr>cl_organization = pk self, cl_user = user, reason = UPDATED,
             from_plan = Some (plan self), from_next_plan = Some (next_plan self),
             from_max_users = Some (max_users self),
             to_plan = plan self', to_next_plan = next_plan self',
             to_max_users = max_users self'\<rparr>]"
    and "pk self' = pk self" and "row (pk self) d' = Some self'"
proof -
  from set_subscription_Return [OF assms]
  obtain memo s1 d2 where c: "card_saved st token (self, d) = Return memo s1"
    and t: "transition st today memo p (if individual self then 1 else mu) s1 =
             Return () (self', d2)"
    and d': "d' = d2\<lparr>change_logs := change_logs d2 @ [updated_log user (fst s1) self']\<rparr>"
    by auto
  have cs: "card_step (self, d) s1" using card_saved_step [of "(self, d)" st token] c by simp
  note f = card_step_fields [OF cs]
  from transition_frame [of st today memo p "if individual self then 1 else mu" s1] t
  have pk: "pk self' = pk (fst s1)" and k: "kept (snd s1) d2" and sv: "saved (self', d2)"
    by simp_all
  show "pk self' = pk self" using pk f(1) by simp
  have "change_logs d2 = change_logs d" using k f(9) by (simp add: kept_def)
  then show "change_logs d' = change_logs d @
           [\<lparr>cl_organization = pk self, cl_user = user, reason = UPDATED,
             from_plan = Some (plan self), from_next_plan = Some (next_plan self),
             from_max_users = Some (max_users self),
             to_plan = plan self', to_next_plan = next_plan self',
             to_max_users = max_users self'\<rparr>]"
    using d' f pk by (simp add: updated_log_def)
  show "row (pk self) d' = Some self'"
    using sv d' pk f(1) by (simp add: saved_def)
qed

section \<open>The branches of \<open>set_subscription\<close>\<close>

text \<open>What a returning call has done, branch by branch.\<close>


lemma subscription_cong:
  "subscription_id a = subscription_id b \<Longrightarrow> subscription st a = subscription st b"
  by (simp add: subscription_def)

lemma modify_subscription_found:
  assumes "subscription st self = Inr (Some sub)"
    and "modify_subscription st today c p mu (self, d) = Return v s'"
  shows "modify_plan p mu (self, d) = Return v s'"
  using assms by (auto simp: modify_subscription_def split: sum.splits option.splits)

lemma modify_plan_downgrade:
  "feature_level p < feature_level (plan self) \<Longrightarrow>
   modify_plan p mu (self, d) =
     Return () (self\<lparr>next_plan := p, max_users := mu\<rparr>,
                save (self\<lparr>next_plan := p, max_users := mu\<rparr>) d)"
  by (simp add: modify_plan_def Let_def)

lemma cached_customer_Return:
  assumes "(case cached_customer st memo s of
              Raise e s1 \<Rightarrow> Raise e s1 | Return c s1 \<Rightarrow> f c s1) = Return v s'"
  shows "\<exists>c s1. cached_customer st memo s = Return c s1 \<and> card_step s s1 \<and> f c s1 = Return v s'"
  using assms cached_customer_step [of s st memo]
  by (cases "cached_customer st memo s") auto



lemma cancel_subscription_Return:
  assumes "cancel_subscription st p (self, d) = Return v (self', d')"
  shows "self' = self\<lparr>subscription_id :=
                        (case subscription st self of
                           Inr (Some sub) \<Rightarrow> None
                         | _ \<Rightarrow> subscription_id self),
                      next_plan := p\<rparr>"
  using assms
  by (auto simp: cancel_subscription_def Let_def split: sum.splits option.splits)

lemma cancel_subscription_missing:
  assumes "subscription st self = Inr None"
  shows "cancel_subscription st p (self, d) =
           Return () (self\<lparr>next_plan := p\<rparr>, save (self\<lparr>next_plan := p\<rparr>) d)"
  using assms by (simp add: cancel_subscription_def Let_def)


section \<open>Free to paid: the remote call after the commit\<close>

text \<open>
  The two ways \<open>_create_subscription\<close> meets a failing remote call: at its own commit
  when no transaction is open, at the commit of the enclosing transaction otherwise.
\<close>


lemma ensure_email_cong:
  "email a = email b \<Longrightarrow> ensure_email st c a = ensure_email st c b"
  by (simp add: ensure_email_def)

lemma create_subscription_fails:
  assumes "\<not> in_atomic_block d" "run_on_commit d = []"
    and "ensure_email st c self = Inr c1"
    and "subscriptions_create st c1 (params_for p mu) = Inl e"
  shows "create_subscription st today c p mu (self, d) =
           Raise e
             (self\<lparr>plan := p, next_plan := p, max_users := mu,
                   update_on := Some (add_month today)\<rparr>,
              (save (self\<lparr>plan := p, next_plan := p, max_users := mu,
                         update_on := Some (add_month today)\<rparr>) d)
                \<lparr>in_atomic_block := False, run_on_commit := []\<rparr>)"
proof -
  let ?self1 = "self\<lparr>plan := p, next_plan := p, max_users := mu,
                     update_on := Some (add_month today)\<rparr>"
  have e: "ensure_email st c ?self1 = Inr c1"
    using assms(3) ensure_email_cong [of ?self1 self st c] by simp
  have s: "(save ?self1 (d\<lparr>in_atomic_block := True\<rparr>))\<lparr>run_on_commit := x, in_atomic_block := False, run_on_commit := []\<rparr>
       = (save ?self1 d)\<lparr>in_atomic_block := False, run_on_commit := []\<rparr>" for x
    by (simp add: save_def)
  show ?thesis
    using assms(1,2,4) e
    by (simp add: create_subscription_def commit_def stripe_create_subscription_def Let_def
          save_frame s)
qed

lemma create_subscription_deferred:
  assumes "in_atomic_block d"
  shows "create_subscription st today c p mu (self, d) =
           Return ()
             (self\<lparr>plan := p, next_plan := p, max_users := mu,
                   update_on := Some (add_month today)\<rparr>,
              (save (self\<lparr>plan := p, next_plan := p, max_users := mu,
                         update_on := Some (add_month today)\<rparr>) d)
                \<lparr>run_on_commit := run_on_commit d @ [StripeCreateSubscription c p mu]\<rparr>)"
  using assms by (cases d) (simp add: create_subscription_def Let_def save_def)

lemma create_failure_autocommit:
  assumes fp: "free (plan self)" "\<not> free p"
    and auto_commit: "\<not> in_atomic_block d" "run_on_commit d = []"
    and card: "card_saved st token (self, d) = Return memo (self1, d1)"
    and cust: "cached_customer st memo (self1, d1) = Return c (self2, d2)"
    and mail: "ensure_email st c self = Inr c1"
    and fails: "subscriptions_create st c1 (params_for p (if individual self then 1 else mu)) = Inl e"
  shows "\<exists>self' d'.
           set_subscription st today token p mu user (self, d) = Raise e (self', d') \<and>
           plan self' = p \<and> next_plan self' = p \<and>
           max_users self' = (if individual self then 1 else mu) \<and>
           update_on self' = Some (add_month today) \<and>
           subscription_id self' = subscription_id self \<and>
           row (pk self) d' = Some self' \<and>
           change_logs d' = change_logs d"
proof -
  let ?mu = "if individual self then 1 else mu"
  let ?self' = "self2\<lparr>plan := p, next_plan := p, max_users := ?mu,
                     update_on := Some (add_month today)\<rparr>"
  let ?d' = "(save ?self' d2)\<lparr>in_atomic_block := False, run_on_commit := []\<rparr>"
  have cs1: "card_step (self, d) (self1, d1)"
    using card_saved_step [of "(self, d)" st token] card by simp
  have cs2: "card_step (self1, d1) (self2, d2)"
    using cached_customer_step [of "(self1, d1)" st memo] cust by simp
  have cs: "card_step (self, d) (self2, d2)" using cs1 cs2 by (rule card_step_trans)
  note f1 = card_step_fields [OF cs1]
  note f = card_step_fields [OF cs]
  have a: "\<not> in_atomic_block d2" "run_on_commit d2 = []" using f auto_commit by simp_all
  have m: "ensure_email st c self2 = Inr c1"
    using mail ensure_email_cong [of self2 self st c] f by simp
  have "free (plan (fst (self1, d1)))" using fp f1 by simp
  from transition_free_paid [OF this fp(2), of st today memo ?mu]
  have t: "transition st today memo p ?mu (self1, d1) = Raise e (?self', ?d')"
    using cust create_subscription_fails [OF a m fails, of today] by simp
  have r: "set_subscription st today token p mu user (self, d) = Raise e (?self', ?d')"
    using card t by (simp add: set_subscription_def Let_def)
  have w: "row (pk self) ?d' = Some ?self'"
    using row_save [of ?self' d2] f by simp
  have l: "change_logs ?d' = change_logs d" using f by (simp add: save_frame)
  from r w l f show ?thesis by simp
qed


lemma commit_single_fails:
  assumes "run_on_commit d = [StripeCreateSubscription c p mu]"
    and "ensure_email st c self = Inr c1"
    and "subscriptions_create st c1 (params_for p mu) = Inl e"
  shows "commit st (self, d) = Raise e (self, d\<lparr>in_atomic_block := False, run_on_commit := []\<rparr>)"
  using assms by (simp add: commit_def stripe_create_subscription_def)

lemma create_failure_after_commit:
  assumes fp: "free (plan self)" "\<not> free p"
    and in_atomic: "in_atomic_block d" "run_on_commit d = []"
    and card: "card_saved st token (self, d) = Return memo (self1, d1)"
    and cust: "cached_customer st memo (self1, d1) = Return c (self2, d2)"
    and mail: "ensure_email st c self = Inr c1"
    and fails: "subscriptions_create st c1 (params_for p (if individual self then 1 else mu)) = Inl e"
  shows "\<exists>self' d' d''.
           set_subscription st today token p mu user (self, d) = Return () (self', d') \<and>
           commit st (self', d') = Raise e (self', d'') \<and>
           plan self' = p \<and> next_plan self' = p \<and>
           max_users self' = (if individual self then 1 else mu) \<and>
           update_on self' = Some (add_month today) \<and>
           subscription_id self' = subscription_id self \<and>
           row (pk self) d'' = Some self' \<and>
           change_logs d'' = change_logs d @ [updated_log user self self']"
proof -
  let ?mu = "if individual self then 1 else mu"
  let ?self' = "self2\<lparr>plan := p, next_plan := p, max_users := ?mu,
                     update_on := Some (add_month today)\<rparr>"
  let ?d2 = "(save ?self' d2)\<lparr>run_on_commit := run_on_commit d2 @
                 [StripeCreateSubscription c p ?mu]\<rparr>"
  let ?d' = "?d2\<lparr>change_logs := change_logs ?d2 @ [updated_log user self1 ?self']\<rparr>"
  have cs1: "card_step (self, d) (self1, d1)"
    using card_saved_step [of "(self, d)" st token] card by simp
  have cs2: "card_step (self1, d1) (self2, d2)"
    using cached_customer_step [of "(self1, d1)" st memo] cust by simp
  have cs: "card_step (self, d) (self2, d2)" using cs1 cs2 by (rule card_step_trans)
  note f1 = card_step_fields [OF cs1]
  note f = card_step_fields [OF cs]
  have a: "in_atomic_block d2" "run_on_commit d2 = []" using f in_atomic by simp_all
  have m: "ensure_email st c ?self' = Inr c1"
    using mail ensure_email_cong [of ?self' self st c] f by simp
  have "free (plan (fst (self1, d1)))" using fp f1 by simp
  from transition_free_paid [OF this fp(2), of st today memo ?mu]
  have t: "transition st today memo p ?mu (self1, d1) = Return () (?self', ?d2)"
    using cust create_subscription_deferred [OF a(1), of st today c p ?mu self2] by simp
  have r: "set_subscription st today token p mu user (self, d) = Return () (?self', ?d')"
    using card t by (simp add: set_subscription_def Let_def)
  have h: "run_on_commit ?d' = [StripeCreateSubscription c p ?mu]"
    using a by (simp add: save_frame)
  note cm = commit_single_fails [OF h m fails]
  have u: "updated_log user self1 ?self' = updated_log user self ?self'"
    using f1 by (simp add: updated_log_def)
  have w: "row (pk self) (?d'\<lparr>in_atomic_block := False, run_on_commit := []\<rparr>) = Some ?self'"
    using row_save [of ?self' d2] f by simp
  have l: "change_logs (?d'\<lparr>in_atomic_block := False, run_on_commit := []\<rparr>) =
             change_logs d @ [updated_log user self ?self']"
    using f u by (simp add: save_frame)
  from r cm w l f show ?thesis by simp
qed

section \<open>The charge webhook\<close>














section \<open>Invitation lifecycle\<close>

lemma accept_terminal_raises:
  "terminal self \<Longrightarrow> \<exists>e. accept now user (self, ms) = Raise e (self, ms)"
  by (simp add: accept_def terminal_def)

lemma reject_terminal_raises:
  "terminal self \<Longrightarrow> \<exists>e. reject now (self, ms) = Raise e (self, ms)"
  by (simp add: reject_def terminal_def)

lemma accept_returns_terminal:
  "accept now user (self, ms) = Return v (self', ms') \<Longrightarrow> terminal self' \<and> \<not> terminal self"
  by (auto simp: accept_def terminal_def Let_def split: if_splits)

lemma reject_returns_terminal:
  "reject now (self, ms) = Return v (self', ms') \<Longrightarrow> terminal self' \<and> \<not> terminal self"
  by (auto simp: reject_def terminal_def split: if_splits)

text \<open>
  Claim C9. Once \<open>accepted_at\<close> or \<open>rejected_at\<close> is set, the invitation is terminal: every
  later \<open>accept()\<close> or \<open>reject()\<close> raises (a \<open>ValueError\<close>) and leaves the invitation, with
  its \<open>accepted_at\<close> and \<open>rejected_at\<close>, and the membership table as they were. A call that
  returns makes the invitation terminal, so \<open>accept()\<close> and \<open>reject()\<close> return at most once
  in total; in particular the second of two \<open>accept()\<close> calls raises and \<open>accepted_at\<close> is
  the same before and after it.
\<close>

theorem invitation_terminal_once:
  "(terminal self \<longrightarrow>
      (\<exists>m. accept now user (self, ms) = Raise (ValueError m) (self, ms)) \<and>
      (\<exists>m. reject now (self, ms) = Raise (ValueError m) (self, ms)))
   \<and> (accept now user (self, ms) = Return () (self', ms') \<longrightarrow>
        terminal self' \<and>
        (\<exists>m. accept now2 user2 (self', ms') = Raise (ValueError m) (self', ms')) \<and>
        (\<exists>m. reject now2 (self', ms') = Raise (ValueError m) (self', ms')))
   \<and> (reject now (self, ms) = Return () (self', ms') \<longrightarrow>
        terminal self' \<and>
        (\<exists>m. accept now2 user2 (self', ms') = Raise (ValueError m) (self', ms')) \<and>
        (\<exists>m. reject now2 (self', ms') = Raise (ValueError m) (self', ms')))"
proof (intro conjI impI)
  assume t: "terminal self"
  show "\<exists>m. accept now user (self, ms) = Raise (ValueError m) (self, ms)"
    using t by (simp add: accept_def terminal_def)
  show "\<exists>m. reject now (self, ms) = Raise (ValueError m) (self, ms)"
    using t by (simp add: reject_def terminal_def)
next
  assume a: "accept now user (self, ms) = Return () (self', ms')"
  then show t: "terminal self'" by (simp add: accept_returns_terminal)
  show "\<exists>m. accept now2 user2 (self', ms') = Raise (ValueError m) (self', ms')"
    using t by (simp add: accept_def terminal_def)
  show "\<exists>m. reject now2 (self', ms') = Raise (ValueError m) (self', ms')"
    using t by (simp add: reject_def terminal_def)
next
  assume r: "reject now (self, ms) = Return () (self', ms')"
  then show t: "terminal self'" by (simp add: reject_returns_terminal)
  show "\<exists>m. accept now2 user2 (self', ms') = Raise (ValueError m) (self', ms')"
    using t by (simp add: accept_def terminal_def)
  show "\<exists>m. reject now2 (self', ms') = Raise (ValueError m) (self', ms')"
    using t by (simp add: reject_def terminal_def)
qed


theorem invitation_terminal_once_witness:
  "accept 100 (Some 7) (pending_invitation, []) =
     Return () (pending_invitation\<lparr>inv_user := Some 7, accepted_at := Some 100\<rparr>,
                [\<lparr>m_user = 7, m_organization = 1, admin = False\<rparr>])
   \<and> (\<exists>m. accept 200 (Some 7) (pending_invitation\<lparr>inv_user := Some 7, accepted_at := Some 100\<rparr>,
                [\<lparr>m_user = 7, m_organization = 1, admin = False\<rparr>]) =
        Raise (ValueError m) (pending_invitation\<lparr>inv_user := Some 7, accepted_at := Some 100\<rparr>,
                [\<lparr>m_user = 7, m_organization = 1, admin = False\<rparr>]))
   \<and> reject 100 (pending_invitation, []) =
       Return () (pending_invitation\<lparr>rejected_at := Some 100\<rparr>, [])
   \<and> (\<exists>m. accept 200 (Some 7) (pending_invitation\<lparr>rejected_at := Some 100\<rparr>, []) =
        Raise (ValueError m) (pending_invitation\<lparr>rejected_at := Some 100\<rparr>, []))
   \<and> terminal (pending_invitation\<lparr>rejected_at := Some 100\<rparr>)
   \<and> (\<exists>m. reject 300 (pending_invitation\<lparr>rejected_at := Some 100\<rparr>, []) =
        Raise (ValueError m) (pending_invitation\<lparr>rejected_at := Some 100\<rparr>, []))"
proof -
  let ?a = "pending_invitation\<lparr>inv_user := Some 7, accepted_at := Some 100\<rparr>"
  let ?ms = "[\<lparr>m_user = 7, m_organization = 1, admin = False\<rparr>]"
  let ?r = "pending_invitation\<lparr>rejected_at := Some 100\<rparr>"
  have a: "accept 100 (Some 7) (pending_invitation, []) = Return () (?a, ?ms)"
    by (simp add: accept_def pending_invitation_def has_member_def)
  have r: "reject 100 (pending_invitation, []) = Return () (?r, [])"
    by (simp add: reject_def pending_invitation_def)
  have t: "terminal ?r"
    by (simp add: terminal_def)
  from invitation_terminal_once [of pending_invitation 100 "Some 7" "[]" ?a ?ms 200 "Some 7"] a
  have 1: "\<exists>m. accept 200 (Some 7) (?a, ?ms) = Raise (ValueError m) (?a, ?ms)"
    by blast
  from invitation_terminal_once [of pending_invitation 100 "Some 7" "[]" ?r "[]" 200 "Some 7"] r
  have 2: "\<exists>m. accept 200 (Some 7) (?r, []) = Raise (ValueError m) (?r, [])"
    by blast
  from invitation_terminal_once [of ?r 300 None "[]"] t
  have 3: "\<exists>m. reject 300 (?r, []) = Raise (ValueError m) (?r, [])"
    by blast
  from a r t 1 2 3 show ?thesis by blast
qed

text \<open>
  Claim C10. The forced downgrade \<open>subscription_cancelled\<close> (with a plan of slug
  \<open>free\<close> in the plan table) changes \<open>plan\<close>, \<open>next_plan\<close> and \<open>subscription_id\<close> of the
  organization and nothing else: \<open>max_users\<close>, \<open>payment_failed\<close>, \<open>customer_id\<close> (and
  \<open>update_on\<close>) are as before, the row saved is the instance, and the one change-log row
  it appends has \<open>to_max_users\<close> equal to \<open>from_max_users\<close>, the unchanged \<open>max_users\<close>.
\<close>

theorem subscription_cancelled_frame:
  assumes "find (\<lambda>p. slug p = ''free'') (plans d) = Some fp"
  shows "\<exists>self' d' cl.
           subscription_cancelled (self, d) = Return () (self', d') \<and>
           self' = self\<lparr>subscription_id := None, plan := fp, next_plan := fp\<rparr> \<and>
           max_users self' = max_users self \<and>
           payment_failed self' = payment_failed self \<and>
           customer_id self' = customer_id self \<and>
           update_on self' = update_on self \<and>
           row (pk self) d' = Some self' \<and>
           change_logs d' = change_logs d @ [cl] \<and>
           reason cl = FAILED \<and>
           from_max_users cl = Some (max_users self) \<and>
           to_max_users cl = max_users self"
proof -
  let ?self' = "self\<lparr>subscription_id := None, plan := fp, next_plan := fp\<rparr>"
  let ?d' = "save ?self' (d\<lparr>change_logs := change_logs d @ [failed_log self fp]\<rparr>)"
  have r: "subscription_cancelled (self, d) = Return () (?self', ?d')"
    using assms by (rule subscription_cancelled_Return)
  have w: "row (pk self) ?d' = Some ?self'"
    using row_save [of ?self'] by simp
  have l: "change_logs ?d' = change_logs d @ [failed_log self fp]"
    by (simp add: save_frame)
  have f: "reason (failed_log self fp) = FAILED"
     "from_max_users (failed_log self fp) = Some (max_users self)"
     "to_max_users (failed_log self fp) = max_users self"
    by (simp_all add: failed_log_def)
  from r w l f show ?thesis by simp
qed

theorem subscription_cancelled_frame_witness:
  "find (\<lambda>p. slug p = ''free'') (plans db0) = Some free_plan \<and>
   (\<exists>d' cl.
      subscription_cancelled (acme, db0) =
        Return () (acme\<lparr>subscription_id := None, plan := free_plan, next_plan := free_plan\<rparr>, d') \<and>
      row 1 d' = Some (acme\<lparr>subscription_id := None, plan := free_plan, next_plan := free_plan\<rparr>) \<and>
      change_logs d' = [cl] \<and> reason cl = FAILED \<and>
      from_max_users cl = Some 5 \<and> to_max_users cl = 5)"
proof -
  have h: "find (\<lambda>p. slug p = ''free'') (plans db0) = Some free_plan"
    by (simp add: db0_def free_plan_def)
  from subscription_cancelled_frame [OF h, of acme] h show ?thesis
    by (auto simp: acme_def db0_def)
qed

section \<open>The failed-payment webhook\<close>

lemma handle_invoice_failed_final:
  assumes "find (\<lambda>r. customer_id r = Some (invoice_customer idata)) (organizations d) = Some org"
      and "find (\<lambda>p. slug p = ''free'') (plans d) = Some fp"
      and "attempt_count idata = 4"
  shows "handle_invoice_failed idata d =
           Return ()
             ((save (org\<lparr>payment_failed := True, subscription_id := None, plan := fp,
                         next_plan := fp\<rparr>)
                 ((save (org\<lparr>payment_failed := True\<rparr>) d)
                    \<lparr>change_logs := change_logs d @
                       [failed_log (org\<lparr>payment_failed := True\<rparr>) fp]\<rparr>))
              \<lparr>outbox := outbox d @ [payment_failed_mail org 4]\<rparr>)"
proof -
  let ?org1 = "org\<lparr>payment_failed := True\<rparr>"
  have p: "find (\<lambda>p. slug p = ''free'') (plans (save ?org1 d)) = Some fp"
    using assms(2) by (simp add: save_frame)
  show ?thesis
    using assms(1,3)
    by (simp add: handle_invoice_failed_def Let_def subscription_cancelled_Return [OF p]
          save_frame payment_failed_mail_def)
qed

lemma handle_invoice_failed_retry:
  assumes "find (\<lambda>r. customer_id r = Some (invoice_customer idata)) (organizations d) = Some org"
      and "attempt_count idata \<noteq> 4"
  shows "handle_invoice_failed idata d =
           Return ()
             ((save (org\<lparr>payment_failed := True\<rparr>) d)
              \<lparr>outbox := outbox d @ [payment_failed_mail org (attempt_count idata)]\<rparr>)"
  using assms
  by (simp add: handle_invoice_failed_def Let_def save_frame payment_failed_mail_def)

text \<open>
  Claim C4. For an organization found by the customer reference: an
  \<open>invoice.payment_failed\<close> event with \<open>attempt_count = 4\<close> (and a plan of slug \<open>free\<close> in
  the plan table) leaves the organization's row with \<open>plan\<close> and \<open>next_plan\<close> the free plan,
  \<open>subscription_id\<close> null and \<open>payment_failed\<close> true, every other field as before, and
  appends exactly one change-log row, with reason \<open>FAILED\<close> (payment failed), from the
  old plans to the free plan. With any other \<open>attempt_count\<close> the row only gets
  \<open>payment_failed\<close> true: \<open>plan\<close>, \<open>next_plan\<close>, \<open>subscription_id\<close> and \<open>max_users\<close> are
  untouched and no change-log row is added.
\<close>

theorem handle_invoice_failed_downgrade:
  assumes "find (\<lambda>r. customer_id r = Some (invoice_customer idata)) (organizations d) = Some org"
  shows "(attempt_count idata = 4 \<and> find (\<lambda>p. slug p = ''free'') (plans d) = Some fp \<longrightarrow>
           (\<exists>d'. handle_invoice_failed idata d = Return () d' \<and>
              row (pk org) d' =
                Some (org\<lparr>payment_failed := True, subscription_id := None, plan := fp,
                          next_plan := fp\<rparr>) \<and>
              change_logs d' = change_logs d @
                [\<lparr>cl_organization = pk org, cl_user = None, reason = FAILED,
                  from_plan = Some (plan org), from_next_plan = Some (next_plan org),
                  from_max_users = Some (max_users org),
                  to_plan = fp, to_next_plan = fp, to_max_users = max_users org\<rparr>]))
       \<and> (attempt_count idata \<noteq> 4 \<longrightarrow>
           (\<exists>d'. handle_invoice_failed idata d = Return () d' \<and>
              row (pk org) d' = Some (org\<lparr>payment_failed := True\<rparr>) \<and>
              change_logs d' = change_logs d))"
proof (intro conjI impI)
  assume a: "attempt_count idata = 4 \<and> find (\<lambda>p. slug p = ''free'') (plans d) = Some fp"
  let ?org2 = "org\<lparr>payment_failed := True, subscription_id := None, plan := fp,
                    next_plan := fp\<rparr>"
  have w: "row (pk org) (save ?org2 (save (org\<lparr>payment_failed := True\<rparr>) d)) = Some ?org2"
    using row_save [of ?org2] by simp
  show "\<exists>d'. handle_invoice_failed idata d = Return () d' \<and>
              row (pk org) d' = Some ?org2 \<and>
              change_logs d' = change_logs d @
                [\<lparr>cl_organization = pk org, cl_user = None, reason = FAILED,
                  from_plan = Some (plan org), from_next_plan = Some (next_plan org),
                  from_max_users = Some (max_users org),
                  to_plan = fp, to_next_plan = fp, to_max_users = max_users org\<rparr>]"
    using a w
    by (simp add: handle_invoice_failed_final [OF assms] save_change_logs save_frame
          failed_log_def)
next
  assume a: "attempt_count idata \<noteq> 4"
  have w: "row (pk org) (save (org\<lparr>payment_failed := True\<rparr>) d) = Some (org\<lparr>payment_failed := True\<rparr>)"
    using row_save [of "org\<lparr>payment_failed := True\<rparr>"] by simp
  show "\<exists>d'. handle_invoice_failed idata d = Return () d' \<and>
              row (pk org) d' = Some (org\<lparr>payment_failed := True\<rparr>) \<and>
              change_logs d' = change_logs d"
    using w by (simp add: handle_invoice_failed_retry [OF assms a] save_frame)
qed

theorem handle_invoice_failed_downgrade_witness:
  "find (\<lambda>r. customer_id r = Some ''cus_1'') (organizations db0) = Some acme \<and>
   find (\<lambda>p. slug p = ''free'') (plans db0) = Some free_plan \<and>
   (\<exists>d'. handle_invoice_failed
            \<lparr>invoice_id = ''in_1'', invoice_customer = ''cus_1'', attempt_count = 4\<rparr> db0 =
            Return () d' \<and>
          row 1 d' = Some (acme\<lparr>payment_failed := True, subscription_id := None,
                                 plan := free_plan, next_plan := free_plan\<rparr>) \<and>
          change_logs d' =
            [\<lparr>cl_organization = 1, cl_user = None, reason = FAILED,
              from_plan = Some pro_plan, from_next_plan = Some pro_plan,
              from_max_users = Some 5,
              to_plan = free_plan, to_next_plan = free_plan, to_max_users = 5\<rparr>]) \<and>
   (\<exists>d'. handle_invoice_failed
            \<lparr>invoice_id = ''in_1'', invoice_customer = ''cus_1'', attempt_count = 3\<rparr> db0 =
            Return () d' \<and>
          row 1 d' = Some (acme\<lparr>payment_failed := True\<rparr>) \<and>
          change_logs d' = [])"
proof -
  let ?i4 = "\<lparr>invoice_id = ''in_1'', invoice_customer = ''cus_1'', attempt_count = 4\<rparr>"
  let ?i3 = "\<lparr>invoice_id = ''in_1'', invoice_customer = ''cus_1'', attempt_count = 3\<rparr>"
  have o: "find (\<lambda>r. customer_id r = Some ''cus_1'') (organizations db0) = Some acme"
    by (simp add: db0_def acme_def)
  have p: "find (\<lambda>p. slug p = ''free'') (plans db0) = Some free_plan"
    by (simp add: db0_def free_plan_def)
  have o4: "find (\<lambda>r. customer_id r = Some (invoice_customer ?i4)) (organizations db0) = Some acme"
    using o by simp
  have o3: "find (\<lambda>r. customer_id r = Some (invoice_customer ?i3)) (organizations db0) = Some acme"
    using o by simp
  have f: "pk acme = 1" "plan acme = pro_plan" "next_plan acme = pro_plan" "max_users acme = 5"
    "change_logs db0 = []"
    by (simp_all add: acme_def db0_def)
  from handle_invoice_failed_downgrade [OF o4, of free_plan]
       handle_invoice_failed_downgrade [OF o3, of free_plan] o p
  show ?thesis by (simp add: f)
qed

section \<open>The rollover job\<close>

lemma add_month_later: "\<not> date_le (add_month t) t"
  by (simp add: date_le_def add_month_def Let_def)

lemma rollover_row:
  "(let r1 = (if due today r \<and> next_plan_free r
              then r\<lparr>update_on := None, plan := next_plan r\<rparr> else r)
    in if due today r1 \<and> \<not> next_plan_free r1
       then r1\<lparr>update_on := Some (plus_interval_1_month today), plan := next_plan r1\<rparr>
       else r1) = rollover_spec today r"
  by (cases "update_on r")
     (simp_all add: due_def next_plan_free_def rollover_spec_def free_def
        plus_interval_1_month_def Let_def)

lemma restore_organization_rows:
  "organizations (snd (restore_organization today d)) =
     map (rollover_spec today) (organizations d)"
proof -
  have "\<And>r.
     ((\<lambda>r1. if due today r1 \<and> \<not> next_plan_free r1
             then r1\<lparr>update_on := Some (plus_interval_1_month today), plan := next_plan r1\<rparr>
             else r1) \<circ>
      (\<lambda>r. if due today r \<and> next_plan_free r
            then r\<lparr>update_on := None, plan := next_plan r\<rparr> else r)) r =
     rollover_spec today r"
    using rollover_row by (simp add: Let_def)
  then show ?thesis
    by (simp add: restore_organization_def Let_def)
qed

lemma rollover_spec_not_due: "\<not> due today (rollover_spec today r)"
  using add_month_later [of today]
  by (cases "update_on r") (simp_all add: due_def rollover_spec_def)

lemma rollover_spec_changes: "(rollover_spec today r \<noteq> r) = due today r"
proof (cases "update_on r")
  case None
  then show ?thesis by (simp add: due_def rollover_spec_def)
next
  case (Some u)
  show ?thesis
  proof (cases "date_le u today")
    case True
    have "update_on (rollover_spec today r) \<noteq> update_on r"
      using Some True add_month_later [of today]
      by (auto simp: rollover_spec_def)
    then have "rollover_spec today r \<noteq> r" by auto
    then show ?thesis using Some True by (simp add: due_def)
  next
    case False
    then show ?thesis using Some by (simp add: due_def rollover_spec_def)
  qed
qed

lemma filter_due_after:
  "filter (due today) (map (rollover_spec today) rows) = []"
  by (induction rows) (simp_all add: rollover_spec_not_due)

lemma rollover_spec_idem:
  "rollover_spec today (rollover_spec today r) = rollover_spec today r"
  using rollover_spec_changes [of today "rollover_spec today r"] rollover_spec_not_due [of today r]
  by simp

text \<open>
  Claim C8. One run of the rollover job rewrites the organization table row by row as the
  specification says: the rows whose \<open>update_on\<close> is on or before today, and only they,
  change; each takes \<open>plan = next_plan\<close>, with \<open>update_on\<close> null when \<open>next_plan\<close> is free
  and today plus one month when it is paid. The uuids notified are those of the rows
  selected, the other tables are untouched, and a second run on the same day selects
  no organization and changes nothing.
\<close>

theorem restore_organization_rollover:
  "organizations (snd (restore_organization today d)) =
     map (rollover_spec today) (organizations d)
   \<and> filter (\<lambda>r. rollover_spec today r \<noteq> r) (organizations d) =
       filter (due today) (organizations d)
   \<and> fst (restore_organization today d) = map uuid (filter (due today) (organizations d))
   \<and> snd (restore_organization today d) =
       d\<lparr>organizations := organizations (snd (restore_organization today d))\<rparr>
   \<and> restore_organization today (snd (restore_organization today d)) =
       ([], snd (restore_organization today d))"
proof (intro conjI)
  show rows: "organizations (snd (restore_organization today d)) =
     map (rollover_spec today) (organizations d)"
    by (rule restore_organization_rows)
  show "filter (\<lambda>r. rollover_spec today r \<noteq> r) (organizations d) =
       filter (due today) (organizations d)"
    by (simp add: rollover_spec_changes)
  show "fst (restore_organization today d) = map uuid (filter (due today) (organizations d))"
    by (simp add: restore_organization_def Let_def)
  show frame: "snd (restore_organization today d) =
       d\<lparr>organizations := organizations (snd (restore_organization today d))\<rparr>"
    by (simp add: restore_organization_def Let_def)
  let ?d' = "snd (restore_organization today d)"
  have 1: "fst (restore_organization today ?d') = []"
    using filter_due_after [of today "organizations d"]
    by (simp add: restore_organization_def [of today ?d'] Let_def rows)
  have 2: "organizations (snd (restore_organization today ?d')) = organizations ?d'"
    by (simp add: restore_organization_rows rollover_spec_idem)
  have 3: "snd (restore_organization today ?d') =
             ?d'\<lparr>organizations := organizations (snd (restore_organization today ?d'))\<rparr>"
    by (simp add: restore_organization_def [of today ?d'] Let_def)
  have "snd (restore_organization today ?d') = ?d'"
    using 2 3 by simp
  with 1 show "restore_organization today ?d' = ([], ?d')"
    by (simp add: prod_eq_iff)
qed

theorem restore_organization_rollover_witness:
  "restore_organization today0 db1 =
     ([''uuid-acme'', ''uuid-bolt''],
      db1\<lparr>organizations :=
            [acme\<lparr>update_on := Some \<lparr>year = 2019, month = 4, day = 15\<rparr>\<rparr>,
             bolt\<lparr>plan := free_plan, update_on := None\<rparr>, solo, dune]\<rparr>)
   \<and> restore_organization today0 (snd (restore_organization today0 db1)) =
       ([], snd (restore_organization today0 db1))"
proof -
  have 1: "restore_organization today0 db1 =
     ([''uuid-acme'', ''uuid-bolt''],
      db1\<lparr>organizations :=
            [acme\<lparr>update_on := Some \<lparr>year = 2019, month = 4, day = 15\<rparr>\<rparr>,
             bolt\<lparr>plan := free_plan, update_on := None\<rparr>, solo, dune]\<rparr>)"
    by (simp add: restore_organization_def Let_def db1_def db0_def acme_def bolt_def solo_def
          dune_def today0_def due_def date_le_def next_plan_free_def free_plan_def pro_plan_def
          basic_plan_def plus_interval_1_month_def add_month_def days_in_month_def)
  from restore_organization_rollover [of today0 db1]
  have 2: "restore_organization today0 (snd (restore_organization today0 db1)) =
       ([], snd (restore_organization today0 db1))"
    by blast
  from 1 2 show ?thesis by blast
qed

section \<open>The change log of \<open>set_subscription\<close>\<close>

text \<open>
  Claim C6. Every \<open>set_subscription\<close> call that returns, whichever of the four branches
  it took, has appended exactly one row to the change log: its reason is \<open>UPDATED\<close>, its
  user the acting user (which may be null), its \<open>from_plan\<close>, \<open>from_next_plan\<close> and
  \<open>from_max_users\<close> the values of the organization before the call and its \<open>to_plan\<close>,
  \<open>to_next_plan\<close> and \<open>to_max_users\<close> the values after it, which are also the values in
  the organization's row.
\<close>

theorem set_subscription_change_log:
  assumes "set_subscription st today token p mu user (self, d) = Return () (self', d')"
  shows "change_logs d' = change_logs d @
           [\<lparr>cl_organization = pk self, cl_user = user, reason = UPDATED,
             from_plan = Some (plan self), from_next_plan = Some (next_plan self),
             from_max_users = Some (max_users self),
             to_plan = plan self', to_next_plan = next_plan self',
             to_max_users = max_users self'\<rparr>]
         \<and> row (pk self) d' = Some self'"
  using set_subscription_log(1,3) [OF assms] by simp

lemma nova_upgrade:
  "set_subscription stripe_ok today0 (Some ''tok_1'') pro_plan 3 (Some 7) (nova, db_nova) =
     Return ()
       (nova\<lparr>plan := pro_plan, next_plan := pro_plan, max_users := 3,
             update_on := Some \<lparr>year = 2019, month = 4, day = 15\<rparr>,
             subscription_id := Some ''sub_new''\<rparr>,
        db_nova\<lparr>organizations :=
                  [nova\<lparr>plan := pro_plan, next_plan := pro_plan, max_users := 3,
                        update_on := Some \<lparr>year = 2019, month = 4, day = 15\<rparr>,
                        subscription_id := Some ''sub_new''\<rparr>],
                change_logs :=
                  [\<lparr>cl_organization = 5, cl_user = Some 7, reason = UPDATED,
                    from_plan = Some free_plan, from_next_plan = Some free_plan,
                    from_max_users = Some 5,
                    to_plan = pro_plan, to_next_plan = pro_plan, to_max_users = 3\<rparr>]\<rparr>)"
  by (simp add: set_subscription_def card_saved_def save_card_def customer_def transition_def
        cached_customer_def create_subscription_def commit_def stripe_create_subscription_def
        ensure_email_def params_for_def save_def updated_log_def Let_def
        stripe_ok_def nova_def db_nova_def db0_def free_def free_plan_def pro_plan_def
        today0_def add_month_def days_in_month_def)

theorem set_subscription_change_log_witness:
  "\<exists>self' d'.
     set_subscription stripe_ok today0 (Some ''tok_1'') pro_plan 3 (Some 7) (nova, db_nova) =
       Return () (self', d') \<and>
     plan self' = pro_plan \<and> max_users self' = 3 \<and>
     change_logs d' =
       [\<lparr>cl_organization = 5, cl_user = Some 7, reason = UPDATED,
         from_plan = Some free_plan, from_next_plan = Some free_plan, from_max_users = Some 5,
         to_plan = pro_plan, to_next_plan = pro_plan, to_max_users = 3\<rparr>] \<and>
     row 5 d' = Some self'"
proof -
  from set_subscription_change_log [OF nova_upgrade]
  show ?thesis
    by (simp add: nova_upgrade) (simp add: nova_def db_nova_def db0_def)
qed

section \<open>The invariant\<close>

lemma rollover_spec_consistent:
  "consistent r \<or> due today r \<Longrightarrow> consistent (rollover_spec today r)"
  by (cases "update_on r")
     (auto simp: rollover_spec_def due_def consistent_def invariant_def settled_def)

lemma subscription_cancelled_update_on:
  "update_on (fst (state_of (subscription_cancelled (self, d)))) = update_on self"
  by (simp add: subscription_cancelled_def Let_def split: option.splits)

lemma subscription_cancelled_invariant:
  assumes "find (\<lambda>p. slug p = ''free'') (plans d) = Some fp" and "free fp"
  shows "invariant (fst (state_of (subscription_cancelled (self, d)))) = (update_on self = None)"
  using assms by (simp add: subscription_cancelled_Return invariant_def)

text \<open>
  Claim C1, as the code has it. Call an organization consistent when the invariant holds
  (\<open>update_on\<close> is null exactly when \<open>plan\<close> and \<open>next_plan\<close> are both free) and no paid
  \<open>next_plan\<close> is pending behind a free \<open>plan\<close>. A \<open>set_subscription\<close> call on a consistent
  organization leaves it consistent, in each of the four branches and whether the call
  returns or raises. A run of the rollover job leaves every consistent row consistent and
  makes every row it selects consistent. The forced downgrade \<open>subscription_cancelled\<close>
  does not write \<open>update_on\<close>: after it (the plan of slug \<open>free\<close> being free) the invariant
  holds exactly when \<open>update_on\<close> was null before.
\<close>

theorem invariant_preserved:
  "(consistent self \<longrightarrow>
      consistent (fst (state_of (set_subscription st today token p mu user (self, d)))))
   \<and> (\<forall>r \<in> set (organizations d). consistent r \<or> due today r \<longrightarrow>
         consistent (rollover_spec today r))
   \<and> organizations (snd (restore_organization today d)) =
       map (rollover_spec today) (organizations d)
   \<and> (find (\<lambda>p. slug p = ''free'') (plans d) = Some fp \<and> free fp \<longrightarrow>
        invariant (fst (state_of (subscription_cancelled (self, d)))) =
          (update_on self = None))"
proof (intro conjI impI ballI)
  assume "consistent self"
  then show "consistent (fst (state_of (set_subscription st today token p mu user (self, d))))"
    using set_subscription_consistent [of "(self, d)"] by simp
next
  fix r assume "consistent r \<or> due today r"
  then show "consistent (rollover_spec today r)" by (rule rollover_spec_consistent)
next
  show "organizations (snd (restore_organization today d)) =
       map (rollover_spec today) (organizations d)"
    by (rule restore_organization_rows)
next
  assume "find (\<lambda>p. slug p = ''free'') (plans d) = Some fp \<and> free fp"
  then show "invariant (fst (state_of (subscription_cancelled (self, d)))) =
          (update_on self = None)"
    using subscription_cancelled_invariant by simp
qed

text \<open>
  The claim as stated fails at the forced downgrade: the paid organization \<open>acme\<close>
  satisfies the invariant, and after \<open>subscription_cancelled\<close> its plans are free while
  \<open>update_on\<close> still holds its date.
\<close>

theorem invariant_counterexample:
  "invariant acme \<and>
   subscription_cancelled (acme, db0) =
     Return () (acme\<lparr>subscription_id := None, plan := free_plan, next_plan := free_plan\<rparr>,
                db0\<lparr>organizations :=
                      [acme\<lparr>subscription_id := None, plan := free_plan,
                            next_plan := free_plan\<rparr>],
                    change_logs := [failed_log acme free_plan]\<rparr>) \<and>
   free free_plan \<and>
   update_on (acme\<lparr>subscription_id := None, plan := free_plan, next_plan := free_plan\<rparr>) =
     Some \<lparr>year = 2019, month = 3, day = 15\<rparr> \<and>
   \<not> invariant (acme\<lparr>subscription_id := None, plan := free_plan, next_plan := free_plan\<rparr>)"
  by (simp add: invariant_def free_def subscription_cancelled_def save_def Let_def
        acme_def db0_def free_plan_def pro_plan_def)

theorem invariant_preserved_witness:
  "consistent nova \<and>
   consistent (fst (state_of
     (set_subscription stripe_ok today0 (Some ''tok_1'') pro_plan 3 (Some 7) (nova, db_nova)))) \<and>
   consistent bolt \<and> due today0 bolt \<and>
   consistent (rollover_spec today0 bolt) \<and>
   find (\<lambda>p. slug p = ''free'') (plans db0) = Some free_plan \<and> free free_plan \<and>
   update_on solo = None \<and>
   invariant (fst (state_of (subscription_cancelled (solo, db0))))"
proof -
  have n: "consistent nova"
    by (simp add: consistent_def invariant_def settled_def free_def nova_def free_plan_def)
  have b: "consistent bolt" "due today0 bolt" "bolt \<in> set (organizations db1)"
    by (simp_all add: consistent_def invariant_def settled_def free_def bolt_def free_plan_def
          pro_plan_def due_def date_le_def today0_def db1_def)
  have f: "find (\<lambda>p. slug p = ''free'') (plans db0) = Some free_plan" "free free_plan"
    "update_on solo = None"
    by (simp_all add: db0_def free_plan_def free_def solo_def)
  from invariant_preserved [of nova stripe_ok today0 "Some ''tok_1''" pro_plan 3 "Some 7" db_nova
         free_plan] n
  have 1: "consistent (fst (state_of
     (set_subscription stripe_ok today0 (Some ''tok_1'') pro_plan 3 (Some 7) (nova, db_nova))))"
    by blast
  from invariant_preserved [of solo stripe_ok today0 None free_plan 1 None db1 free_plan] b
  have 2: "consistent (rollover_spec today0 bolt)" by blast
  from invariant_preserved [of solo stripe_ok today0 None free_plan 1 None db0 free_plan] f
  have 3: "invariant (fst (state_of (subscription_cancelled (solo, db0))))" by blast
  from n b f 1 2 3 show ?thesis by blast
qed

section \<open>Paid to paid: the deferred downgrade\<close>

text \<open>
  Claim C5, as the code has it. On a paid-to-paid downgrade (the new paid plan has a
  strictly lower \<open>feature_level\<close>) of an organization whose remote subscription exists,
  a \<open>set_subscription\<close> call that returns leaves \<open>plan\<close> unchanged and sets \<open>next_plan\<close> to
  the new plan, and it sets \<open>max_users\<close> at once to the number of seats asked for (1 for
  an individual organization): \<open>_modify_plan\<close> defers the plan only.
\<close>

theorem paid_downgrade_deferred:
  assumes paid: "\<not> free (plan self)" "\<not> free p"
    and lower: "feature_level p < feature_level (plan self)"
    and sub: "subscription st self = Inr (Some sub)"
    and ret: "set_subscription st today token p mu user (self, d) = Return () (self', d')"
  shows "plan self' = plan self \<and> next_plan self' = p \<and>
         max_users self' = (if individual self then 1 else mu) \<and>
         update_on self' = update_on self \<and> subscription_id self' = subscription_id self"
proof -
  let ?mu = "if individual self then 1 else mu"
  from set_subscription_Return [OF ret]
  obtain memo s1 d2 where c: "card_saved st token (self, d) = Return memo s1"
    and t: "transition st today memo p ?mu s1 = Return () (self', d2)"
    by auto
  have cs: "card_step (self, d) s1" using card_saved_step [of "(self, d)" st token] c by simp
  note f1 = card_step_fields [OF cs]
  have "\<not> free (plan (fst s1))" using paid f1(2) by simp
  from cached_customer_Return [OF t [unfolded transition_paid_paid [OF this paid(2)]]]
  obtain cu s2 where cs2: "card_step s1 s2"
    and m: "modify_subscription st today cu p ?mu s2 = Return () (self', d2)"
    by blast
  obtain self2 d3 where s2: "s2 = (self2, d3)" by (cases s2)
  note f2 = card_step_fields [OF cs2]
  have e: "plan self2 = plan self" "next_plan self2 = next_plan self"
    "update_on self2 = update_on self" "subscription_id self2 = subscription_id self"
    using f1 f2 s2 by simp_all
  have "subscription st self2 = Inr (Some sub)"
    using sub subscription_cong [OF e(4), of st] by simp
  from modify_subscription_found [OF this m [unfolded s2]]
  have "modify_plan p ?mu (self2, d3) = Return () (self', d2)" .
  moreover have "feature_level p < feature_level (plan self2)" using lower e by simp
  ultimately have "self' = self2\<lparr>next_plan := p, max_users := ?mu\<rparr>"
    by (simp add: modify_plan_downgrade)
  then show ?thesis using e by simp
qed

text \<open>
  The claim as stated fails: the organization \<open>acme\<close> on the pro plan with 5 seats
  downgrades to the basic plan with 3 seats, and has 3 seats at once.
\<close>

theorem paid_downgrade_counterexample:
  "\<not> free (plan acme) \<and> \<not> free basic_plan \<and>
   feature_level basic_plan < feature_level (plan acme) \<and> max_users acme = 5 \<and>
   set_subscription stripe_ok today0 None basic_plan 3 (Some 7) (acme, db0) =
     Return ()
       (acme\<lparr>next_plan := basic_plan, max_users := 3\<rparr>,
        db0\<lparr>organizations := [acme\<lparr>next_plan := basic_plan, max_users := 3\<rparr>],
            change_logs :=
              [\<lparr>cl_organization = 1, cl_user = Some 7, reason = UPDATED,
                from_plan = Some pro_plan, from_next_plan = Some pro_plan,
                from_max_users = Some 5,
                to_plan = pro_plan, to_next_plan = basic_plan, to_max_users = 3\<rparr>]\<rparr>) \<and>
   max_users (acme\<lparr>next_plan := basic_plan, max_users := 3\<rparr>) \<noteq> max_users acme"
  by (simp add: set_subscription_def card_saved_def customer_def transition_def
        cached_customer_def modify_subscription_def subscription_def modify_plan_def
        ensure_email_def params_for_def save_def updated_log_def Let_def
        stripe_ok_def acme_def db0_def free_def basic_plan_def pro_plan_def)

lemma acme_downgrade:
  "set_subscription stripe_ok today0 (Some ''tok_2'') basic_plan 4 None (acme, db0) =
     Return ()
       (acme\<lparr>next_plan := basic_plan, max_users := 4\<rparr>,
        db0\<lparr>organizations := [acme\<lparr>next_plan := basic_plan, max_users := 4\<rparr>],
            change_logs :=
              [\<lparr>cl_organization = 1, cl_user = None, reason = UPDATED,
                from_plan = Some pro_plan, from_next_plan = Some pro_plan,
                from_max_users = Some 5,
                to_plan = pro_plan, to_next_plan = basic_plan, to_max_users = 4\<rparr>]\<rparr>)"
  by (simp add: set_subscription_def card_saved_def save_card_def customer_def transition_def
        cached_customer_def modify_subscription_def subscription_def modify_plan_def
        ensure_email_def params_for_def save_def updated_log_def Let_def
        stripe_ok_def acme_def db0_def free_def basic_plan_def pro_plan_def)

theorem paid_downgrade_deferred_witness:
  "\<not> free (plan acme) \<and> \<not> free basic_plan \<and>
   feature_level basic_plan < feature_level (plan acme) \<and>
   subscription stripe_ok acme =
     Inr (Some \<lparr>sub_id = ''sub_1'', item_id = ''si_1'', cancel_at_period_end = False\<rparr>) \<and>
   (\<exists>self' d'.
      set_subscription stripe_ok today0 (Some ''tok_2'') basic_plan 4 None (acme, db0) =
        Return () (self', d') \<and>
      plan self' = pro_plan \<and> next_plan self' = basic_plan \<and> max_users self' = 4 \<and>
      update_on self' = Some \<lparr>year = 2019, month = 3, day = 15\<rparr> \<and>
      subscription_id self' = Some ''sub_1'')"
proof -
  have h: "\<not> free (plan acme)" "\<not> free basic_plan"
    "feature_level basic_plan < feature_level (plan acme)"
    "subscription stripe_ok acme =
       Inr (Some \<lparr>sub_id = ''sub_1'', item_id = ''si_1'', cancel_at_period_end = False\<rparr>)"
    by (simp_all add: free_def acme_def basic_plan_def pro_plan_def subscription_def
          stripe_ok_def)
  have f: "plan acme = pro_plan" "individual acme = False"
    "update_on acme = Some \<lparr>year = 2019, month = 3, day = 15\<rparr>"
    "subscription_id acme = Some ''sub_1''"
    by (simp_all add: acme_def)
  from paid_downgrade_deferred [OF h acme_downgrade] f
  have "plan (acme\<lparr>next_plan := basic_plan, max_users := 4\<rparr>) = pro_plan \<and>
        next_plan (acme\<lparr>next_plan := basic_plan, max_users := 4\<rparr>) = basic_plan \<and>
        max_users (acme\<lparr>next_plan := basic_plan, max_users := 4\<rparr>) = 4 \<and>
        update_on (acme\<lparr>next_plan := basic_plan, max_users := 4\<rparr>) =
          Some \<lparr>year = 2019, month = 3, day = 15\<rparr> \<and>
        subscription_id (acme\<lparr>next_plan := basic_plan, max_users := 4\<rparr>) = Some ''sub_1''"
    by simp
  with h acme_downgrade show ?thesis by blast
qed

section \<open>Paid to free: the cancellation\<close>

text \<open>
  Claim C7, as the code has it. On a paid-to-free transition a \<open>set_subscription\<close> call
  that returns has left \<open>plan\<close> (and \<open>max_users\<close>, \<open>update_on\<close>) unchanged and set
  \<open>next_plan\<close> to the free plan. It has cleared \<open>subscription_id\<close> when the remote
  subscription was found; when the subscription is missing the call does not fail
  (once the card, if any, is saved, it returns), the error is logged, \<open>next_plan\<close> is set
  to the free plan, and \<open>subscription_id\<close> is left as it was.
\<close>

theorem paid_to_free_cancel:
  assumes paid: "\<not> free (plan self)" and fr: "free p"
  shows "(set_subscription st today token p mu user (self, d) = Return () (self', d') \<longrightarrow>
            plan self' = plan self \<and> next_plan self' = p \<and>
            max_users self' = max_users self \<and> update_on self' = update_on self \<and>
            subscription_id self' =
              (case subscription st self of
                 Inr (Some sub) \<Rightarrow> None
               | _ \<Rightarrow> subscription_id self))
       \<and> (subscription st self = Inr None \<and> returned (card_saved st token (self, d)) \<longrightarrow>
            returned (set_subscription st today token p mu user (self, d)))"
proof (rule conjI; rule impI)
  assume ret: "set_subscription st today token p mu user (self, d) = Return () (self', d')"
  let ?mu = "if individual self then 1 else mu"
  from set_subscription_Return [OF ret]
  obtain memo s1 d2 where c: "card_saved st token (self, d) = Return memo s1"
    and t: "transition st today memo p ?mu s1 = Return () (self', d2)"
    by auto
  obtain self1 d1 where s1: "s1 = (self1, d1)" by (cases s1)
  have cs: "card_step (self, d) s1" using card_saved_step [of "(self, d)" st token] c by simp
  note f1 = card_step_fields [OF cs]
  have e: "plan self1 = plan self" "max_users self1 = max_users self"
    "update_on self1 = update_on self" "subscription_id self1 = subscription_id self"
    using f1 s1 by simp_all
  have "\<not> free (plan (fst s1))" using paid f1(2) by simp
  from t [unfolded transition_paid_free [OF this fr]]
  have "cancel_subscription st p (self1, d1) = Return () (self', d2)" using s1 by simp
  from cancel_subscription_Return [OF this]
  show "plan self' = plan self \<and> next_plan self' = p \<and>
            max_users self' = max_users self \<and> update_on self' = update_on self \<and>
            subscription_id self' =
              (case subscription st self of
                 Inr (Some sub) \<Rightarrow> None
               | _ \<Rightarrow> subscription_id self)"
    using e subscription_cong [OF e(4), of st] by (simp split: sum.splits option.splits)
next
  assume a: "subscription st self = Inr None \<and> returned (card_saved st token (self, d))"
  then obtain memo s1 where c: "card_saved st token (self, d) = Return memo s1"
    by (cases "card_saved st token (self, d)") auto
  obtain self1 d1 where s1: "s1 = (self1, d1)" by (cases s1)
  have cs: "card_step (self, d) s1" using card_saved_step [of "(self, d)" st token] c by simp
  note f1 = card_step_fields [OF cs]
  have e: "subscription_id self1 = subscription_id self" using f1 s1 by simp
  have m: "subscription st self1 = Inr None" using a subscription_cong [OF e, of st] by simp
  have "\<not> free (plan (fst s1))" using paid f1(2) by simp
  from transition_paid_free [OF this fr]
  have "transition st today memo p (if individual self then 1 else mu) s1 =
          Return () (self1\<lparr>next_plan := p\<rparr>, save (self1\<lparr>next_plan := p\<rparr>) d1)"
    using s1 cancel_subscription_missing [OF m] by simp
  then show "returned (set_subscription st today token p mu user (self, d))"
    using c by (simp add: set_subscription_def Let_def)
qed

text \<open>
  The claim as stated fails: \<open>acme\<close> holds the id of a subscription that Stripe no longer
  has; the cancellation returns, and the id is still there.
\<close>

theorem paid_to_free_counterexample:
  "\<not> free (plan acme) \<and> free free_plan \<and>
   subscription_id acme = Some ''sub_1'' \<and> subscription stripe_gone acme = Inr None \<and>
   set_subscription stripe_gone today0 None free_plan 5 (Some 7) (acme, db0) =
     Return ()
       (acme\<lparr>next_plan := free_plan\<rparr>,
        db0\<lparr>organizations := [acme\<lparr>next_plan := free_plan\<rparr>],
            change_logs :=
              [\<lparr>cl_organization = 1, cl_user = Some 7, reason = UPDATED,
                from_plan = Some pro_plan, from_next_plan = Some pro_plan,
                from_max_users = Some 5,
                to_plan = pro_plan, to_next_plan = free_plan, to_max_users = 5\<rparr>]\<rparr>) \<and>
   subscription_id (acme\<lparr>next_plan := free_plan\<rparr>) = Some ''sub_1''"
  by (simp add: set_subscription_def card_saved_def transition_def cancel_subscription_def
        subscription_def save_def updated_log_def Let_def
        stripe_gone_def stripe_ok_def acme_def db0_def free_def free_plan_def pro_plan_def)

lemma acme_cancel:
  "set_subscription stripe_ok today0 None free_plan 5 (Some 7) (acme, db0) =
     Return ()
       (acme\<lparr>subscription_id := None, next_plan := free_plan\<rparr>,
        db0\<lparr>organizations := [acme\<lparr>subscription_id := None, next_plan := free_plan\<rparr>],
            change_logs :=
              [\<lparr>cl_organization = 1, cl_user = Some 7, reason = UPDATED,
                from_plan = Some pro_plan, from_next_plan = Some pro_plan,
                from_max_users = Some 5,
                to_plan = pro_plan, to_next_plan = free_plan, to_max_users = 5\<rparr>]\<rparr>)"
  by (simp add: set_subscription_def card_saved_def transition_def cancel_subscription_def
        subscription_def save_def updated_log_def Let_def
        stripe_ok_def acme_def db0_def free_def free_plan_def pro_plan_def)

theorem paid_to_free_cancel_witness:
  "\<not> free (plan acme) \<and> free free_plan \<and>
   (\<exists>self' d'.
      set_subscription stripe_ok today0 None free_plan 5 (Some 7) (acme, db0) =
        Return () (self', d') \<and>
      plan self' = pro_plan \<and> next_plan self' = free_plan \<and> subscription_id self' = None) \<and>
   \<not> free (plan bolt) \<and> subscription stripe_ok bolt = Inr None \<and>
   returned (card_saved stripe_ok None (bolt, db1)) \<and>
   returned (set_subscription stripe_ok today0 None free_plan 3 None (bolt, db1))"
proof -
  have h: "\<not> free (plan acme)" "free free_plan" "\<not> free (plan bolt)"
    by (simp_all add: free_def acme_def bolt_def free_plan_def pro_plan_def)
  have s: "subscription stripe_ok acme =
       Inr (Some \<lparr>sub_id = ''sub_1'', item_id = ''si_1'', cancel_at_period_end = False\<rparr>)"
    "subscription stripe_ok bolt = Inr None"
    "returned (card_saved stripe_ok None (bolt, db1))"
    by (simp_all add: subscription_def stripe_ok_def acme_def bolt_def card_saved_def)
  have f: "plan acme = pro_plan" by (simp add: acme_def)
  let ?a = "acme\<lparr>subscription_id := None, next_plan := free_plan\<rparr>"
  from paid_to_free_cancel [OF h(1,2), of stripe_ok today0 None 5 "Some 7" db0 ?a] acme_cancel s(1) f
  have 1: "plan ?a = pro_plan \<and> next_plan ?a = free_plan \<and> subscription_id ?a = None"
    by simp
  from paid_to_free_cancel [OF h(3,2), of stripe_ok today0 None 3 None db1] s(2,3)
  have 2: "returned (set_subscription stripe_ok today0 None free_plan 3 None (bolt, db1))"
    by blast
  from h s 1 2 acme_cancel show ?thesis by blast
qed

section \<open>Free to paid: a failing remote call\<close>

text \<open>
  Claim C3, as the code has it. On a free-to-paid transition the remote
  create-subscription call runs after the local state is committed, so when it fails the
  new local state is retained: \<open>plan\<close> and \<open>next_plan\<close> are the new plan, \<open>max_users\<close> the
  new number of seats, \<open>update_on\<close> today plus one month, in the instance and in its row;
  only \<open>subscription_id\<close> is as before. Outside an enclosing transaction the error leaves
  \<open>set_subscription\<close> and no change-log row is appended. Inside one, \<open>set_subscription\<close>
  returns, with its change-log row, and the error is raised when the enclosing
  transaction commits.
\<close>

theorem create_failure_retained:
  assumes fp: "free (plan self)" "\<not> free p"
    and hooks: "run_on_commit d = []"
    and card: "card_saved st token (self, d) = Return memo (self1, d1)"
    and cust: "cached_customer st memo (self1, d1) = Return c (self2, d2)"
    and mail: "ensure_email st c self = Inr c1"
    and fails: "subscriptions_create st c1 (params_for p (if individual self then 1 else mu)) = Inl e"
  shows "(\<not> in_atomic_block d \<longrightarrow>
          (\<exists>self' d'.
             set_subscription st today token p mu user (self, d) = Raise e (self', d') \<and>
             plan self' = p \<and> next_plan self' = p \<and>
             max_users self' = (if individual self then 1 else mu) \<and>
             update_on self' = Some (add_month today) \<and>
             subscription_id self' = subscription_id self \<and>
             row (pk self) d' = Some self' \<and>
             change_logs d' = change_logs d))
       \<and> (in_atomic_block d \<longrightarrow>
          (\<exists>self' d' d''.
             set_subscription st today token p mu user (self, d) = Return () (self', d') \<and>
             commit st (self', d') = Raise e (self', d'') \<and>
             plan self' = p \<and> next_plan self' = p \<and>
             max_users self' = (if individual self then 1 else mu) \<and>
             update_on self' = Some (add_month today) \<and>
             subscription_id self' = subscription_id self \<and>
             row (pk self) d'' = Some self' \<and>
             change_logs d'' = change_logs d @ [updated_log user self self']))"
proof (rule conjI; rule impI)
  assume "\<not> in_atomic_block d"
  from create_failure_autocommit [OF fp this hooks card cust mail fails]
  show "\<exists>self' d'.
             set_subscription st today token p mu user (self, d) = Raise e (self', d') \<and>
             plan self' = p \<and> next_plan self' = p \<and>
             max_users self' = (if individual self then 1 else mu) \<and>
             update_on self' = Some (add_month today) \<and>
             subscription_id self' = subscription_id self \<and>
             row (pk self) d' = Some self' \<and>
             change_logs d' = change_logs d" .
next
  assume "in_atomic_block d"
  from create_failure_after_commit [OF fp this hooks card cust mail fails]
  show "\<exists>self' d' d''.
             set_subscription st today token p mu user (self, d) = Return () (self', d') \<and>
             commit st (self', d') = Raise e (self', d'') \<and>
             plan self' = p \<and> next_plan self' = p \<and>
             max_users self' = (if individual self then 1 else mu) \<and>
             update_on self' = Some (add_month today) \<and>
             subscription_id self' = subscription_id self \<and>
             row (pk self) d'' = Some self' \<and>
             change_logs d'' = change_logs d @ [updated_log user self self']" .
qed

text \<open>
  The claim as stated fails: the free organization \<open>nova\<close> asks for the pro plan with 3
  seats, the remote call fails, and the organization and its row are on the pro plan,
  with 3 seats and a rollover date, and without a subscription.
\<close>

theorem create_failure_counterexample:
  "free (plan nova) \<and> \<not> free pro_plan \<and>
   subscriptions_create stripe_down
     \<lparr>cust_id = ''cus_5'', cust_email = Some ''billing@example.org'', source = None\<rparr>
     (params_for pro_plan 3) = Inl StripeError \<and>
   set_subscription stripe_down today0 None pro_plan 3 (Some 7) (nova, db_nova) =
     Raise StripeError
       (nova\<lparr>plan := pro_plan, next_plan := pro_plan, max_users := 3,
             update_on := Some \<lparr>year = 2019, month = 4, day = 15\<rparr>\<rparr>,
        db_nova\<lparr>organizations :=
                  [nova\<lparr>plan := pro_plan, next_plan := pro_plan, max_users := 3,
                        update_on := Some \<lparr>year = 2019, month = 4, day = 15\<rparr>\<rparr>]\<rparr>) \<and>
   plan nova = free_plan \<and> pro_plan \<noteq> free_plan \<and> max_users nova = 5 \<and>
   update_on nova = None"
  by (simp add: set_subscription_def card_saved_def customer_def transition_def
        cached_customer_def create_subscription_def commit_def stripe_create_subscription_def
        ensure_email_def params_for_def save_def Let_def
        stripe_down_def stripe_ok_def nova_def db_nova_def db0_def free_def free_plan_def
        pro_plan_def today0_def add_month_def days_in_month_def)

theorem create_failure_retained_witness:
  "free (plan nova) \<and> \<not> free pro_plan \<and>
   (\<exists>self' d'.
      set_subscription stripe_down today0 None pro_plan 3 (Some 7) (nova, db_nova) =
        Raise StripeError (self', d') \<and>
      plan self' = pro_plan \<and> max_users self' = 3 \<and>
      update_on self' = Some \<lparr>year = 2019, month = 4, day = 15\<rparr> \<and>
      subscription_id self' = None \<and> row 5 d' = Some self' \<and> change_logs d' = []) \<and>
   (\<exists>self' d' d''.
      set_subscription stripe_down today0 None pro_plan 3 (Some 7)
        (nova, db_nova\<lparr>in_atomic_block := True\<rparr>) = Return () (self', d') \<and>
      commit stripe_down (self', d') = Raise StripeError (self', d'') \<and>
      plan self' = pro_plan \<and> row 5 d'' = Some self' \<and>
      change_logs d'' = [updated_log (Some 7) nova self'])"
proof -
  let ?c = "\<lparr>cust_id = ''cus_5'', cust_email = Some ''billing@example.org'', source = None\<rparr>"
  let ?dn = "db_nova\<lparr>in_atomic_block := True\<rparr>"
  have fp: "free (plan nova)" "\<not> free pro_plan"
    by (simp_all add: free_def nova_def free_plan_def pro_plan_def)
  have hooks: "run_on_commit db_nova = []" "run_on_commit ?dn = []"
    and mode: "\<not> in_atomic_block db_nova" "in_atomic_block ?dn"
    by (simp_all add: db_nova_def db0_def)
  have card: "card_saved stripe_down None (nova, db_nova) = Return None (nova, db_nova)"
    "card_saved stripe_down None (nova, ?dn) = Return None (nova, ?dn)"
    by (simp_all add: card_saved_def)
  have cust: "cached_customer stripe_down None (nova, db_nova) = Return ?c (nova, db_nova)"
    "cached_customer stripe_down None (nova, ?dn) = Return ?c (nova, ?dn)"
    by (simp_all add: cached_customer_def customer_def stripe_down_def stripe_ok_def nova_def)
  have mail: "ensure_email stripe_down ?c nova = Inr ?c"
    by (simp add: ensure_email_def)
  have fails: "subscriptions_create stripe_down ?c
                 (params_for pro_plan (if individual nova then 1 else 3)) = Inl StripeError"
    by (simp add: stripe_down_def stripe_ok_def)
  have f: "individual nova = False" "subscription_id nova = None" "pk nova = 5"
    "change_logs db_nova = []" "change_logs ?dn = []"
    "add_month today0 = \<lparr>year = 2019, month = 4, day = 15\<rparr>"
    by (simp_all add: nova_def db_nova_def db0_def today0_def add_month_def days_in_month_def)
  from create_failure_retained [OF fp hooks(1) card(1) cust(1) mail fails, of today0 "Some 7"]
    mode(1) f
  have 1: "\<exists>self' d'.
      set_subscription stripe_down today0 None pro_plan 3 (Some 7) (nova, db_nova) =
        Raise StripeError (self', d') \<and>
      plan self' = pro_plan \<and> max_users self' = 3 \<and>
      update_on self' = Some \<lparr>year = 2019, month = 4, day = 15\<rparr> \<and>
      subscription_id self' = None \<and> row 5 d' = Some self' \<and> change_logs d' = []"
    by auto
  from create_failure_retained [OF fp hooks(2) card(2) cust(2) mail fails, of today0 "Some 7"]
    mode(2) f
  have 2: "\<exists>self' d' d''.
      set_subscription stripe_down today0 None pro_plan 3 (Some 7) (nova, ?dn) =
        Return () (self', d') \<and>
      commit stripe_down (self', d') = Raise StripeError (self', d'') \<and>
      plan self' = pro_plan \<and> row 5 d'' = Some self' \<and>
      change_logs d'' = [updated_log (Some 7) nova self']"
    by auto
  from fp 1 2 show ?thesis by blast
qed

section \<open>The charge webhook, delivered twice\<close>




end
